theory Spec2Isabelle
  imports Complex_Main "HOL-Library.AList"
begin

section \<open>Python values used by the ledger\<close>

subsection \<open>Floats\<close>

text \<open>
  A Python \<open>float\<close> is an IEEE-754 binary64 value. \<open>Fin q\<close> is the finite value
  \<open>q\<close>; the two zeros are one value \<open>Fin 0\<close> (they compare equal and are both
  falsy, and nothing in the modelled code divides by a balance or prints its sign).
\<close>

datatype pyfloat = Fin rat | PInf | NInf | NaN

definition pow2 :: "int \<Rightarrow> rat" where
  "pow2 k = (if 0 \<le> k then 2 ^ nat k else 1 / 2 ^ nat (- k))"

function bit_length :: "int \<Rightarrow> int" where
  "bit_length n = (if n \<le> 0 then 0 else 1 + bit_length (n div 2))"
  by pat_completeness auto
termination
  by (relation "measure nat") auto

declare bit_length.simps [simp del]

text \<open>The binary exponent of a positive rational: \<open>2 ^ ilog2 q \<le> q < 2 ^ (ilog2 q + 1)\<close>.\<close>

definition ilog2 :: "rat \<Rightarrow> int" where
  "ilog2 q = (if 1 \<le> q then bit_length \<lfloor>q\<rfloor> - 1 else - bit_length (\<lceil>1 / q\<rceil> - 1))"

definition half_even :: "int \<Rightarrow> rat \<Rightarrow> int" where
  "half_even f d =
     (if d < 1 / 2 then f else if 1 / 2 < d then f + 1 else if even f then f else f + 1)"

definition round_half_even :: "rat \<Rightarrow> int" where
  "round_half_even r = half_even \<lfloor>r\<rfloor> (r - of_int \<lfloor>r\<rfloor>)"

definition round_to :: "rat \<Rightarrow> rat \<Rightarrow> rat" where
  "round_to u a = of_int (round_half_even (a / u)) * u"

text \<open>
  The spacing of binary64 values around a positive \<open>a\<close>: 53 significant bits, and
  the subnormal spacing \<open>2 ^ - 1074\<close> below \<open>2 ^ - 1022\<close>.
\<close>

definition ulp_of :: "rat \<Rightarrow> rat" where
  "ulp_of a = pow2 (max (ilog2 a) (- 1022) - 52)"

definition overflow_check :: "bool \<Rightarrow> rat \<Rightarrow> pyfloat" where
  "overflow_check neg v =
     (if 1024 \<le> ilog2 v then (if neg then NInf else PInf) else Fin (if neg then - v else v))"

text \<open>Rounding to nearest, ties to even: the result of every binary64 operation.\<close>

definition round64 :: "rat \<Rightarrow> pyfloat" where
  "round64 q =
     (if q = 0 then Fin 0 else overflow_check (q < 0) (round_to (ulp_of \<bar>q\<bar>) \<bar>q\<bar>))"

fun fsign :: "pyfloat \<Rightarrow> int" where
  "fsign (Fin a) = (if a < 0 then - 1 else if a = 0 then 0 else 1)"
| "fsign PInf = 1"
| "fsign NInf = - 1"
| "fsign NaN = 0"

fun fneg :: "pyfloat \<Rightarrow> pyfloat" where
  "fneg (Fin a) = Fin (- a)"
| "fneg PInf = NInf"
| "fneg NInf = PInf"
| "fneg NaN = NaN"

fun fadd :: "pyfloat \<Rightarrow> pyfloat \<Rightarrow> pyfloat" where
  "fadd (Fin a) (Fin b) = round64 (a + b)"
| "fadd NaN y = NaN"
| "fadd x NaN = NaN"
| "fadd PInf NInf = NaN"
| "fadd NInf PInf = NaN"
| "fadd PInf y = PInf"
| "fadd NInf y = NInf"
| "fadd (Fin a) y = y"

definition fsub :: "pyfloat \<Rightarrow> pyfloat \<Rightarrow> pyfloat" where
  "fsub x y = fadd x (fneg y)"

fun fmul :: "pyfloat \<Rightarrow> pyfloat \<Rightarrow> pyfloat" where
  "fmul (Fin a) (Fin b) = round64 (a * b)"
| "fmul NaN y = NaN"
| "fmul x NaN = NaN"
| "fmul x y =
     (if fsign x * fsign y = 0 then NaN else if 0 < fsign x * fsign y then PInf else NInf)"

text \<open>\<open>x < y\<close> and \<open>x <= y\<close>: every comparison with \<open>nan\<close> is false.\<close>

fun flt :: "pyfloat \<Rightarrow> pyfloat \<Rightarrow> bool" where
  "flt (Fin a) (Fin b) = (a < b)"
| "flt NaN y = False"
| "flt x NaN = False"
| "flt x NInf = False"
| "flt PInf y = False"
| "flt NInf y = True"
| "flt (Fin a) PInf = True"

fun fle :: "pyfloat \<Rightarrow> pyfloat \<Rightarrow> bool" where
  "fle (Fin a) (Fin b) = (a \<le> b)"
| "fle NaN y = False"
| "fle x NaN = False"
| "fle NInf y = True"
| "fle x PInf = True"
| "fle PInf y = False"
| "fle (Fin a) NInf = False"

text \<open>\<open>bool(x)\<close>: only zero is falsy; \<open>nan\<close> is truthy.\<close>

definition truthy :: "pyfloat \<Rightarrow> bool" where
  "truthy x = (x \<noteq> Fin 0)"

subsection \<open>Strings\<close>

text \<open>\<open>str.upper\<close> and \<open>str.strip\<close> on code points below 256.\<close>

definition upper_char :: "char \<Rightarrow> char" where
  "upper_char c =
     (case map_of (zip ''abcdefghijklmnopqrstuvwxyz'' ''ABCDEFGHIJKLMNOPQRSTUVWXYZ'') c of
        Some u \<Rightarrow> u | None \<Rightarrow> c)"

definition upper :: "string \<Rightarrow> string" where
  "upper s = map upper_char s"

definition is_space :: "char \<Rightarrow> bool" where
  "is_space c =
     (c \<in> set [CHR 0x09, CHR 0x0A, CHR 0x0B, CHR 0x0C, CHR 0x0D, CHR 0x1C, CHR 0x1D,
                CHR 0x1E, CHR 0x1F, CHR 0x20, CHR 0x85, CHR 0xA0])"

definition strip :: "string \<Rightarrow> string" where
  "strip s = rev (dropWhile is_space (rev (dropWhile is_space s)))"

text \<open>\<open>s.replace("Z", "+00:00")\<close>.\<close>

definition replace_Z :: "string \<Rightarrow> string" where
  "replace_Z s = concat (map (\<lambda>c. if c = CHR ''Z'' then ''+00:00'' else [c]) s)"

subsection \<open>Exceptions (core/exceptions.py and built-ins)\<close>

text \<open>
  The message of an exception, by the place that raises it; the arguments are the values
  formatted into the text.
\<close>

datatype message =
    Username_empty
  | Password_too_short
  | Username_taken string
  | User_username_empty
  | User_password_too_short
  | Amount_not_a_number
  | Amount_not_positive
  | Initial_balance_negative
  | Deposit_not_positive
  | Withdrawal_not_positive
  | Rate_unavailable string string
  | Rate_stale string string
  | Unknown_transaction_type string
  | No_attribute string string

datatype error =
    ValueError message
  | CurrencyNotFoundError string
  | InsufficientFundsError pyfloat pyfloat string
  | ApiRequestError message
  | AttributeError message

section \<open>Persisted state (infra/database.py)\<close>

text \<open>
  What \<open>open\<close> followed by \<open>json.load\<close> finds at a path: no file
  (\<open>FileNotFoundError\<close>), a text that \<open>json.load\<close> rejects
  (\<open>json.JSONDecodeError\<close>), or a decoded value.
\<close>

datatype 'a json_file = Missing | Corrupt | Stored 'a

record user_data =
  ud_user_id :: int
  ud_username :: string
  ud_hashed_password :: string
  ud_salt :: string
  ud_registration_date :: string

record portfolio_data =
  pd_user_id :: int
  pd_wallets :: "(string \<times> pyfloat) list"

text \<open>
  One entry of \<open>rates.json\<close>: a dict whose keys \<open>rate\<close>, \<open>updated_at\<close> and
  \<open>source\<close> may each be missing or \<open>null\<close> (\<open>None\<close> here).
\<close>

record pair_info =
  pi_rate :: "pyfloat option"
  pi_updated_at :: "string option"
  pi_source :: "string option"

text \<open>
  The decoded \<open>rates.json\<close>: a dict with the key \<open>pairs\<close> and a \<open>last_refresh\<close>
  (\<open>Cache\<close>), or a dict without the key \<open>pairs\<close>, which
  \<open>save_current_rates\<close> reads as the old flat format (\<open>Flat\<close>). Python dicts
  keep insertion order, so they are association lists here.
\<close>

datatype rates_cache =
    Cache "(string \<times> pair_info) list" "string option"
  | Flat "(string \<times> pair_info) list"

record rate_record =
  rr_id :: string
  rr_from_currency :: string
  rr_to_currency :: string
  rr_rate :: pyfloat
  rr_timestamp :: string
  rr_source :: string
  rr_meta :: "(string \<times> string) list"

text \<open>
  The data directory. \<open>writes\<close> is the sequence of file names handed to
  \<open>_save_json\<close>, oldest first: it tells a write of unchanged content from no write.
\<close>

record database =
  users_json :: "user_data list json_file"
  portfolios_json :: "portfolio_data list json_file"
  rates_json :: "rates_cache json_file"
  exchange_rates_json :: "rate_record list json_file"
  writes :: "string list"

text \<open>
  \<open>_load_json\<close>: both caught exceptions give the default. Every caller passes a
  default that is not \<open>None\<close>, so the fallback to \<open>[]\<close> is never taken.
\<close>

definition load_json :: "'a json_file \<Rightarrow> 'a \<Rightarrow> 'a" where
  "load_json f dflt = (case f of Missing \<Rightarrow> dflt | Corrupt \<Rightarrow> dflt | Stored v \<Rightarrow> v)"

definition load_users :: "database \<Rightarrow> user_data list" where
  "load_users db = load_json (users_json db) []"

definition save_users :: "user_data list \<Rightarrow> database \<Rightarrow> database" where
  "save_users users db = db\<lparr>users_json := Stored users, writes := writes db @ [''users.json'']\<rparr>"

definition load_portfolios :: "database \<Rightarrow> portfolio_data list" where
  "load_portfolios db = load_json (portfolios_json db) []"

definition save_portfolios :: "portfolio_data list \<Rightarrow> database \<Rightarrow> database" where
  "save_portfolios ps db =
     db\<lparr>portfolios_json := Stored ps, writes := writes db @ [''portfolios.json'']\<rparr>"

definition load_rates_cache :: "database \<Rightarrow> rates_cache" where
  "load_rates_cache db = load_json (rates_json db) (Cache [] None)"

definition save_rates_cache :: "rates_cache \<Rightarrow> database \<Rightarrow> database" where
  "save_rates_cache c db = db\<lparr>rates_json := Stored c, writes := writes db @ [''rates.json'']\<rparr>"

definition load_exchange_rates_history :: "database \<Rightarrow> rate_record list" where
  "load_exchange_rates_history db = load_json (exchange_rates_json db) []"

definition save_exchange_rates_history :: "rate_record list \<Rightarrow> database \<Rightarrow> database" where
  "save_exchange_rates_history h db =
     db\<lparr>exchange_rates_json := Stored h, writes := writes db @ [''exchange_rates.json'']\<rparr>"

section \<open>Parser storage (parser_service/storage.py)\<close>

text \<open>
  The argument of \<open>save_exchange_rate\<close>: a dict with the keys \<open>from_currency\<close>,
  \<open>to_currency\<close>, \<open>rate\<close>, \<open>source\<close> and, optionally, \<open>meta\<close>.
\<close>

record rate_data =
  rd_from_currency :: string
  rd_to_currency :: string
  rd_rate :: pyfloat
  rd_source :: string
  rd_meta :: "(string \<times> string) list option"

text \<open>\<open>stamp\<close> is \<open>datetime.now().strftime("%Y-%m-%dT%H:%M:%SZ")\<close>.\<close>

definition generate_rate_id :: "string \<Rightarrow> rate_data \<Rightarrow> string" where
  "generate_rate_id stamp rd = rd_from_currency rd @ ''_'' @ rd_to_currency rd @ ''_'' @ stamp"

text \<open>
  The record built by \<open>save_exchange_rate\<close>: \<open>stamp\<close> is the clock reading of
  \<open>_generate_rate_id\<close>, \<open>iso_now\<close> the second one, \<open>datetime.now().isoformat()\<close>.
\<close>

definition new_record :: "string \<Rightarrow> string \<Rightarrow> rate_data \<Rightarrow> rate_record" where
  "new_record stamp iso_now rd =
     \<lparr>rr_id = generate_rate_id stamp rd,
      rr_from_currency = rd_from_currency rd,
      rr_to_currency = rd_to_currency rd,
      rr_rate = rd_rate rd,
      rr_timestamp = iso_now @ ''Z'',
      rr_source = rd_source rd,
      rr_meta = (case rd_meta rd of None \<Rightarrow> [] | Some m \<Rightarrow> m)\<rparr>"

definition save_exchange_rate :: "string \<Rightarrow> string \<Rightarrow> rate_data \<Rightarrow> database \<Rightarrow> database" where
  "save_exchange_rate stamp iso_now rd db =
     (let history = load_exchange_rates_history db;
          history = history @ [new_record stamp iso_now rd];
          history = (if length history > 1000
                     then drop (length history - 1000) history else history)
      in save_exchange_rates_history history db)"

text \<open>
  \<open>save_current_rates\<close>: \<open>current_time\<close> is \<open>datetime.now().isoformat()\<close>.
  \<open>dict.update\<close> keeps the place of a key that exists and appends a new one, as
  \<open>AList.update\<close> does.
\<close>

definition new_pairs :: "string \<Rightarrow> string \<Rightarrow> (string \<times> pyfloat) list \<Rightarrow> (string \<times> pair_info) list" where
  "new_pairs current_time source rates =
     fold (\<lambda>(pair_key, rate) acc.
             AList.update pair_key
               \<lparr>pi_rate = Some rate, pi_updated_at = Some current_time, pi_source = Some source\<rparr> acc)
          rates []"

definition dict_update :: "('k \<times> 'v) list \<Rightarrow> ('k \<times> 'v) list \<Rightarrow> ('k \<times> 'v) list" where
  "dict_update d new = fold (\<lambda>(k, v) acc. AList.update k v acc) new d"

definition save_current_rates :: "string \<Rightarrow> (string \<times> pyfloat) list \<Rightarrow> string \<Rightarrow> database \<Rightarrow> database" where
  "save_current_rates current_time rates source db =
     (let np = new_pairs current_time source rates;
          cache = load_rates_cache db;
          old_pairs = (case cache of Cache ps _ \<Rightarrow> ps | Flat ps \<Rightarrow> ps)
      in save_rates_cache (Cache (dict_update old_pairs np) (Some current_time)) db)"

text \<open>The pairs of a decoded cache, as \<open>save_current_rates\<close> reads them.\<close>

definition cache_pairs :: "rates_cache \<Rightarrow> (string \<times> pair_info) list" where
  "cache_pairs c = (case c of Cache ps _ \<Rightarrow> ps | Flat ps \<Rightarrow> ps)"

section \<open>Currency registry (core/currencies.py)\<close>

datatype currency_kind = FiatCurrency | CryptoCurrency

text \<open>
  A currency of the registry: its code, its name and its class. The fields read only by
  \<open>get_display_info\<close> (issuing country, algorithm, market capitalisation) are left out.
\<close>

record currency =
  cur_code :: string
  cur_name :: string
  cur_kind :: currency_kind

definition currencies :: "(string \<times> currency) list" where
  "currencies =
     [(''USD'', \<lparr>cur_code = ''USD'', cur_name = ''US Dollar'', cur_kind = FiatCurrency\<rparr>),
      (''EUR'', \<lparr>cur_code = ''EUR'', cur_name = ''Euro'', cur_kind = FiatCurrency\<rparr>),
      (''GBP'', \<lparr>cur_code = ''GBP'', cur_name = ''British Pound'', cur_kind = FiatCurrency\<rparr>),
      (''RUB'', \<lparr>cur_code = ''RUB'', cur_name = ''Russian Ruble'', cur_kind = FiatCurrency\<rparr>),
      (''JPY'', \<lparr>cur_code = ''JPY'', cur_name = ''Japanese Yen'', cur_kind = FiatCurrency\<rparr>),
      (''CNY'', \<lparr>cur_code = ''CNY'', cur_name = ''Chinese Yuan'', cur_kind = FiatCurrency\<rparr>),
      (''BTC'', \<lparr>cur_code = ''BTC'', cur_name = ''Bitcoin'', cur_kind = CryptoCurrency\<rparr>),
      (''ETH'', \<lparr>cur_code = ''ETH'', cur_name = ''Ethereum'', cur_kind = CryptoCurrency\<rparr>),
      (''SOL'', \<lparr>cur_code = ''SOL'', cur_name = ''Solana'', cur_kind = CryptoCurrency\<rparr>),
      (''ADA'', \<lparr>cur_code = ''ADA'', cur_name = ''Cardano'', cur_kind = CryptoCurrency\<rparr>),
      (''DOT'', \<lparr>cur_code = ''DOT'', cur_name = ''Polkadot'', cur_kind = CryptoCurrency\<rparr>)]"

definition get_currency :: "string \<Rightarrow> error + currency" where
  "get_currency code =
     (case map_of currencies (upper code) of
        None \<Rightarrow> Inl (CurrencyNotFoundError (upper code))
      | Some c \<Rightarrow> Inr c)"

section \<open>Ledger entities (core/models.py, core/utils.py)\<close>

text \<open>
  The outside world of one call: Python's \<open>float()\<close> on a string (\<open>None\<close> is its
  \<open>ValueError\<close>), \<open>datetime.fromisoformat\<close> (\<open>None\<close> is its \<open>ValueError\<close>), the two
  clocks and the configured \<open>rates_ttl_seconds\<close>. Times are microseconds: a naive
  \<open>datetime\<close> is a wall-clock reading, an aware one an instant.
\<close>

datatype datetime = Naive int | Aware int

record env =
  float_of_str :: "string \<Rightarrow> pyfloat option"
  fromisoformat :: "string \<Rightarrow> datetime option"
  now_naive :: int
  now_aware :: int
  RATES_TTL :: int

definition validate_amount :: "env \<Rightarrow> string \<Rightarrow> error + pyfloat" where
  "validate_amount ev amount =
     (case float_of_str ev amount of
        None \<Rightarrow> Inl (ValueError Amount_not_a_number)
      | Some v \<Rightarrow> if fle v (Fin 0) then Inl (ValueError Amount_not_positive) else Inr v)"

text \<open>\<open>sha256_hex\<close> is \<open>hashlib.sha256(...).hexdigest()\<close>.\<close>

definition hash_password :: "(string \<Rightarrow> string) \<Rightarrow> string \<Rightarrow> string \<Rightarrow> string" where
  "hash_password sha256_hex password salt = sha256_hex (password @ salt)"

text \<open>
  \<open>User.__init__\<close> followed by \<open>to_dict\<close>: \<open>salt\<close> is \<open>os.urandom(16).hex()\<close> and
  \<open>reg_date\<close> is \<open>datetime.now().isoformat()\<close>.
\<close>

definition User :: "(string \<Rightarrow> string) \<Rightarrow> string \<Rightarrow> string \<Rightarrow> int \<Rightarrow> string \<Rightarrow> string
    \<Rightarrow> error + user_data" where
  "User sha256_hex salt reg_date uid username password =
     (if username = [] then Inl (ValueError User_username_empty)
      else if length password < 4 then Inl (ValueError User_password_too_short)
      else Inr \<lparr>ud_user_id = uid, ud_username = username,
                 ud_hashed_password = hash_password sha256_hex password salt,
                 ud_salt = salt, ud_registration_date = reg_date\<rparr>)"

record wallet =
  wallet_currency_code :: string
  balance :: pyfloat

definition Wallet :: "string \<Rightarrow> pyfloat \<Rightarrow> error + wallet" where
  "Wallet code bal =
     (if flt bal (Fin 0) then Inl (ValueError Initial_balance_negative)
      else Inr \<lparr>wallet_currency_code = upper code, balance = bal\<rparr>)"

definition deposit :: "pyfloat \<Rightarrow> wallet \<Rightarrow> error + wallet" where
  "deposit amount w =
     (if fle amount (Fin 0) then Inl (ValueError Deposit_not_positive)
      else Inr (w\<lparr>balance := fadd (balance w) amount\<rparr>))"

definition withdraw :: "pyfloat \<Rightarrow> wallet \<Rightarrow> error + wallet" where
  "withdraw amount w =
     (if fle amount (Fin 0) then Inl (ValueError Withdrawal_not_positive)
      else if flt (balance w) amount
        then Inl (InsufficientFundsError (balance w) amount (wallet_currency_code w))
      else Inr (w\<lparr>balance := fsub (balance w) amount\<rparr>))"

text \<open>
  A portfolio: the dict \<open>_wallets\<close> maps a key to its wallet object. A wallet is
  reached only through its key, so a reference to a wallet is the key.
\<close>

record portfolio =
  user_id :: int
  wallets :: "(string \<times> wallet) list"

definition add_currency :: "string \<Rightarrow> portfolio \<Rightarrow> error + portfolio" where
  "add_currency code p =
     (if upper code \<in> fst ` set (wallets p) then Inr p
      else case Wallet (upper code) (Fin 0) of
             Inl e \<Rightarrow> Inl e
           | Inr w \<Rightarrow> Inr (p\<lparr>wallets := AList.update (upper code) w (wallets p)\<rparr>))"

definition get_wallet :: "portfolio \<Rightarrow> string \<Rightarrow> wallet option" where
  "get_wallet p code = map_of (wallets p) (upper code)"

definition to_dict :: "portfolio \<Rightarrow> portfolio_data" where
  "to_dict p = \<lparr>pd_user_id = user_id p,
               pd_wallets = map (\<lambda>(code, w). (code, balance w)) (wallets p)\<rparr>"

fun wallets_from_dict :: "(string \<times> pyfloat) list \<Rightarrow> (string \<times> wallet) list
    \<Rightarrow> error + (string \<times> wallet) list" where
  "wallets_from_dict [] acc = Inr acc"
| "wallets_from_dict ((code, bal) # rest) acc =
     (case Wallet code bal of
        Inl e \<Rightarrow> Inl e
      | Inr w \<Rightarrow> wallets_from_dict rest (AList.update code w acc))"

definition from_dict :: "portfolio_data \<Rightarrow> error + portfolio" where
  "from_dict d =
     (case wallets_from_dict (pd_wallets d) [] of
        Inl e \<Rightarrow> Inl e
      | Inr ws \<Rightarrow> Inr \<lparr>user_id = pd_user_id d, wallets = ws\<rparr>)"

text \<open>
  A caller working through a list of deposits and withdrawals on one wallet: a call that
  raises leaves the wallet object as it was, and the caller goes on.
\<close>

datatype wallet_op = Deposit pyfloat | Withdraw pyfloat

fun apply_op :: "wallet \<Rightarrow> wallet_op \<Rightarrow> wallet" where
  "apply_op w (Deposit amount) = (case deposit amount w of Inl e \<Rightarrow> w | Inr w' \<Rightarrow> w')"
| "apply_op w (Withdraw amount) = (case withdraw amount w of Inl e \<Rightarrow> w | Inr w' \<Rightarrow> w')"

definition run_ops :: "wallet \<Rightarrow> wallet_op list \<Rightarrow> wallet" where
  "run_ops w ops = fold (\<lambda>op w. apply_op w op) ops w"

fun op_amount :: "wallet_op \<Rightarrow> pyfloat" where
  "op_amount (Deposit amount) = amount"
| "op_amount (Withdraw amount) = amount"

definition is_finite :: "pyfloat \<Rightarrow> bool" where
  "is_finite x = (case x of Fin q \<Rightarrow> True | _ \<Rightarrow> False)"

section \<open>Use cases (core/usecases.py)\<close>

subsection \<open>The cached rate\<close>

text \<open>
  \<open>_get_cached_rate\<close>: \<open>None\<close> stands for the triple \<open>(None, None, False)\<close>.
  \<open>pairs_of\<close> is \<open>rates_data.get("pairs", {})\<close>: a dict without the key \<open>pairs\<close> has
  no pairs for this function. An entry with no key at all is the empty dict, which is
  falsy.
\<close>

definition is_fresh_at :: "env \<Rightarrow> datetime \<Rightarrow> bool" where
  "is_fresh_at ev updated_at =
     (case updated_at of
        Aware t \<Rightarrow> now_aware ev - t < RATES_TTL ev * 1000000
      | Naive t \<Rightarrow> now_naive ev - t < RATES_TTL ev * 1000000)"

definition pairs_of :: "rates_cache \<Rightarrow> (string \<times> pair_info) list" where
  "pairs_of rates_data = (case rates_data of Cache ps lr \<Rightarrow> ps | Flat ps \<Rightarrow> [])"

definition pair_key :: "string \<Rightarrow> string \<Rightarrow> string" where
  "pair_key from_cur to_cur = upper from_cur @ ''_'' @ upper to_cur"

definition get_cached_rate :: "env \<Rightarrow> database \<Rightarrow> string \<Rightarrow> string
    \<Rightarrow> (pyfloat \<times> datetime \<times> bool) option" where
  "get_cached_rate ev db from_cur to_cur =
     (case map_of (pairs_of (load_rates_cache db)) (pair_key from_cur to_cur) of
        None \<Rightarrow> None
      | Some pair_info \<Rightarrow>
          if pi_rate pair_info = None \<and> pi_updated_at pair_info = None
             \<and> pi_source pair_info = None then None
          else
            (case pi_rate pair_info of
               None \<Rightarrow> None
             | Some rate \<Rightarrow>
                 if \<not> truthy rate then None
                 else
                   (case pi_updated_at pair_info of
                      None \<Rightarrow> None
                    | Some updated_at_str \<Rightarrow>
                        if updated_at_str = [] then None
                        else
                          (case fromisoformat ev (replace_Z updated_at_str) of
                             None \<Rightarrow> None
                           | Some updated_at \<Rightarrow>
                               Some (rate, updated_at, is_fresh_at ev updated_at)))))"

subsection \<open>UserService\<close>

text \<open>\<open>max(xs, default=d)\<close>.\<close>

definition py_max :: "int list \<Rightarrow> int \<Rightarrow> int" where
  "py_max xs d = (case xs of [] \<Rightarrow> d | x # rest \<Rightarrow> fold max rest x)"

definition register :: "(string \<Rightarrow> string) \<Rightarrow> string \<Rightarrow> string \<Rightarrow> string \<Rightarrow> string
    \<Rightarrow> database \<Rightarrow> (error + user_data) \<times> database" where
  "register sha256_hex salt reg_date username password db =
     (if username = [] \<or> strip username = [] then (Inl (ValueError Username_empty), db)
      else if length password < 4 then (Inl (ValueError Password_too_short), db)
      else if find (\<lambda>u. ud_username u = username) (load_users db) \<noteq> None
        then (Inl (ValueError (Username_taken username)), db)
      else
        (case User sha256_hex salt reg_date (py_max (map ud_user_id (load_users db)) 0 + 1)
                username password of
           Inl e \<Rightarrow> (Inl e, db)
         | Inr user \<Rightarrow>
             (Inr user,
              save_portfolios
                (load_portfolios (save_users (load_users db @ [user]) db)
                   @ [to_dict \<lparr>user_id = ud_user_id user, wallets = []\<rparr>])
                (save_users (load_users db @ [user]) db))))"

subsection \<open>PortfolioService\<close>

text \<open>The object: \<open>self.user\<close>, of which only the id is read, and \<open>self._portfolio\<close>.\<close>

record service =
  svc_user_id :: int
  svc_portfolio :: portfolio

definition load_portfolio :: "int \<Rightarrow> database \<Rightarrow> (error + portfolio) \<times> database" where
  "load_portfolio uid db =
     (case find (\<lambda>p. pd_user_id p = uid) (load_portfolios db) of
        Some p \<Rightarrow> (from_dict p, db)
      | None \<Rightarrow>
          (Inr \<lparr>user_id = uid, wallets = []\<rparr>,
           save_portfolios (load_portfolios db @ [to_dict \<lparr>user_id = uid, wallets = []\<rparr>]) db))"

definition PortfolioService :: "int \<Rightarrow> database \<Rightarrow> (error + service) \<times> database" where
  "PortfolioService uid db =
     (case load_portfolio uid db of
        (Inl e, db') \<Rightarrow> (Inl e, db')
      | (Inr p, db') \<Rightarrow> (Inr \<lparr>svc_user_id = uid, svc_portfolio = p\<rparr>, db'))"

text \<open>The \<open>for\<close> loop with \<open>break\<close> and \<open>else\<close> of \<open>_save_portfolio\<close>.\<close>

fun replace_first :: "('a \<Rightarrow> bool) \<Rightarrow> 'a \<Rightarrow> 'a list \<Rightarrow> 'a list option" where
  "replace_first P y [] = None"
| "replace_first P y (x # xs) =
     (if P x then Some (y # xs) else map_option ((#) x) (replace_first P y xs))"

definition save_portfolio :: "service \<Rightarrow> database \<Rightarrow> database" where
  "save_portfolio svc db =
     (case replace_first (\<lambda>p. pd_user_id p = svc_user_id svc) (to_dict (svc_portfolio svc))
             (load_portfolios db) of
        Some ps \<Rightarrow> save_portfolios ps db
      | None \<Rightarrow> save_portfolios (load_portfolios db @ [to_dict (svc_portfolio svc)]) db)"

text \<open>
  \<open>_get_or_create_wallet\<close> returns the wallet object; here the portfolio after the
  call. The object is then read through \<open>get_wallet\<close>, which gives \<open>None\<close> exactly when
  the Python reference would be \<open>None\<close>.
\<close>

definition get_or_create_wallet :: "string \<Rightarrow> portfolio \<Rightarrow> error + portfolio" where
  "get_or_create_wallet code p =
     (case get_wallet p code of None \<Rightarrow> add_currency code p | Some w \<Rightarrow> Inr p)"

text \<open>Reading \<open>.balance\<close> of, and calling a method on, the wallet behind a reference.\<close>

definition balance_of :: "portfolio \<Rightarrow> string \<Rightarrow> error + pyfloat" where
  "balance_of p code =
     (case get_wallet p code of
        None \<Rightarrow> Inl (AttributeError (No_attribute ''NoneType'' ''balance''))
      | Some w \<Rightarrow> Inr (balance w))"

definition on_wallet :: "string \<Rightarrow> string \<Rightarrow> (wallet \<Rightarrow> error + wallet) \<Rightarrow> portfolio
    \<Rightarrow> error + portfolio" where
  "on_wallet method code f p =
     (case get_wallet p code of
        None \<Rightarrow> Inl (AttributeError (No_attribute ''NoneType'' method))
      | Some w \<Rightarrow>
          (case f w of
             Inl e \<Rightarrow> Inl e
           | Inr w' \<Rightarrow> Inr (p\<lparr>wallets := AList.update (upper code) w' (wallets p)\<rparr>)))"

text \<open>
  \<open>_prepare_transaction\<close> returns the amount, the rate, the two wallet references (the
  codes they were asked by) and the freshness flag. The second component is the
  portfolio object after the call: wallets created before a raise stay in it.
\<close>

definition prepare_transaction :: "env \<Rightarrow> database \<Rightarrow> portfolio \<Rightarrow> string \<Rightarrow> string \<Rightarrow> string
    \<Rightarrow> string \<Rightarrow> (error + pyfloat \<times> pyfloat \<times> string \<times> string \<times> bool) \<times> portfolio" where
  "prepare_transaction ev db p code amount base_currency transaction_type =
     (case validate_amount ev amount of
        Inl e \<Rightarrow> (Inl e, p)
      | Inr amount_float \<Rightarrow>
     (case get_currency code of
        Inl e \<Rightarrow> (Inl e, p)
      | Inr cur \<Rightarrow>
     (case get_cached_rate ev db (cur_code cur) base_currency of
        None \<Rightarrow> (Inl (ApiRequestError (Rate_unavailable (cur_code cur) base_currency)), p)
      | Some (rate, updated_at, is_fresh) \<Rightarrow>
          if \<not> is_fresh
          then (Inl (ApiRequestError (Rate_stale (cur_code cur) base_currency)), p)
          else if transaction_type = ''buy'' then
            (case get_or_create_wallet base_currency p of
               Inl e \<Rightarrow> (Inl e, p)
             | Inr p1 \<Rightarrow>
            (case get_or_create_wallet (cur_code cur) p1 of
               Inl e \<Rightarrow> (Inl e, p1)
             | Inr p2 \<Rightarrow>
            (case balance_of p2 base_currency of
               Inl e \<Rightarrow> (Inl e, p2)
             | Inr available \<Rightarrow>
                 if flt available (fmul amount_float rate)
                 then (Inl (InsufficientFundsError available (fmul amount_float rate)
                              base_currency), p2)
                 else (Inr (amount_float, rate, base_currency, cur_code cur, is_fresh), p2))))
          else if transaction_type = ''sell'' then
            (case get_or_create_wallet (cur_code cur) p of
               Inl e \<Rightarrow> (Inl e, p)
             | Inr p1 \<Rightarrow>
            (case get_or_create_wallet base_currency p1 of
               Inl e \<Rightarrow> (Inl e, p1)
             | Inr p2 \<Rightarrow>
            (case balance_of p2 (cur_code cur) of
               Inl e \<Rightarrow> (Inl e, p2)
             | Inr available \<Rightarrow>
                 if flt available amount_float
                 then (Inl (InsufficientFundsError available amount_float (cur_code cur)), p2)
                 else (Inr (amount_float, rate, cur_code cur, base_currency, is_fresh), p2))))
          else (Inl (ValueError (Unknown_transaction_type transaction_type)), p))))"

text \<open>
  The result dict of \<open>buy_currency\<close>. Its first entry is \<open>currency_code.code\<close>, and
  \<open>currency_code\<close> is the \<open>str\<close> the caller passed: a \<open>str\<close> has no attribute
  \<open>code\<close>.
\<close>

record buy_result =
  br_currency :: string
  br_amount :: pyfloat
  br_rate :: pyfloat
  br_cost :: pyfloat
  br_base_currency :: string
  br_new_balance :: pyfloat
  br_base_balance :: pyfloat
  br_rate_fresh :: bool

definition str_code :: "string \<Rightarrow> error + string" where
  "str_code s = Inl (AttributeError (No_attribute ''str'' ''code''))"

definition buy_currency :: "env \<Rightarrow> string \<Rightarrow> string \<Rightarrow> string \<Rightarrow> database \<times> service
    \<Rightarrow> (error + buy_result) \<times> database \<times> service" where
  "buy_currency ev currency_code amount base_currency st =
     (case st of (db, svc) \<Rightarrow>
     (case prepare_transaction ev db (svc_portfolio svc) currency_code amount base_currency ''buy'' of
        (Inl e, p) \<Rightarrow> (Inl e, db, svc\<lparr>svc_portfolio := p\<rparr>)
      | (Inr (amount_float, rate, base_wallet, target_wallet, is_fresh), p) \<Rightarrow>
     (case on_wallet ''withdraw'' base_wallet (withdraw (fmul amount_float rate)) p of
        Inl e \<Rightarrow> (Inl e, db, svc\<lparr>svc_portfolio := p\<rparr>)
      | Inr p1 \<Rightarrow>
     (case on_wallet ''deposit'' target_wallet (deposit amount_float) p1 of
        Inl e \<Rightarrow> (Inl e, db, svc\<lparr>svc_portfolio := p1\<rparr>)
      | Inr p2 \<Rightarrow>
     (case str_code currency_code of
        Inl e \<Rightarrow>
          (Inl e, save_portfolio (svc\<lparr>svc_portfolio := p2\<rparr>) db, svc\<lparr>svc_portfolio := p2\<rparr>)
      | Inr c \<Rightarrow>
     (case balance_of p2 target_wallet of
        Inl e \<Rightarrow>
          (Inl e, save_portfolio (svc\<lparr>svc_portfolio := p2\<rparr>) db, svc\<lparr>svc_portfolio := p2\<rparr>)
      | Inr new_balance \<Rightarrow>
     (case balance_of p2 base_wallet of
        Inl e \<Rightarrow>
          (Inl e, save_portfolio (svc\<lparr>svc_portfolio := p2\<rparr>) db, svc\<lparr>svc_portfolio := p2\<rparr>)
      | Inr base_balance \<Rightarrow>
          (Inr \<lparr>br_currency = c, br_amount = amount_float, br_rate = rate,
                 br_cost = fmul amount_float rate, br_base_currency = base_currency,
                 br_new_balance = new_balance, br_base_balance = base_balance,
                 br_rate_fresh = is_fresh\<rparr>,
           save_portfolio (svc\<lparr>svc_portfolio := p2\<rparr>) db,
           svc\<lparr>svc_portfolio := p2\<rparr>))))))))"

record sell_result =
  sr_currency :: string
  sr_amount :: pyfloat
  sr_rate :: pyfloat
  sr_proceeds :: pyfloat
  sr_base_currency :: string
  sr_new_balance :: pyfloat
  sr_base_balance :: pyfloat
  sr_rate_fresh :: bool

text \<open>
  \<open>sell_currency\<close>. Its warning for a stale rate only writes to the log, and
  \<open>_prepare_transaction\<close> has already raised in that case.
\<close>

definition sell_currency :: "env \<Rightarrow> string \<Rightarrow> string \<Rightarrow> string \<Rightarrow> database \<times> service
    \<Rightarrow> (error + sell_result) \<times> database \<times> service" where
  "sell_currency ev currency_code amount base_currency st =
     (case st of (db, svc) \<Rightarrow>
     (case prepare_transaction ev db (svc_portfolio svc) currency_code amount base_currency ''sell'' of
        (Inl e, p) \<Rightarrow> (Inl e, db, svc\<lparr>svc_portfolio := p\<rparr>)
      | (Inr (amount_float, rate, wallet_from, wallet_to, is_fresh), p) \<Rightarrow>
     (case on_wallet ''withdraw'' wallet_from (withdraw amount_float) p of
        Inl e \<Rightarrow> (Inl e, db, svc\<lparr>svc_portfolio := p\<rparr>)
      | Inr p1 \<Rightarrow>
     (case on_wallet ''deposit'' wallet_to (deposit (fmul amount_float rate)) p1 of
        Inl e \<Rightarrow> (Inl e, db, svc\<lparr>svc_portfolio := p1\<rparr>)
      | Inr p2 \<Rightarrow>
     (case balance_of p2 wallet_from of
        Inl e \<Rightarrow>
          (Inl e, save_portfolio (svc\<lparr>svc_portfolio := p2\<rparr>) db, svc\<lparr>svc_portfolio := p2\<rparr>)
      | Inr new_balance \<Rightarrow>
     (case balance_of p2 wallet_to of
        Inl e \<Rightarrow>
          (Inl e, save_portfolio (svc\<lparr>svc_portfolio := p2\<rparr>) db, svc\<lparr>svc_portfolio := p2\<rparr>)
      | Inr base_balance \<Rightarrow>
          (Inr \<lparr>sr_currency = upper currency_code, sr_amount = amount_float, sr_rate = rate,
                 sr_proceeds = fmul amount_float rate, sr_base_currency = base_currency,
                 sr_new_balance = new_balance, sr_base_balance = base_balance,
                 sr_rate_fresh = is_fresh\<rparr>,
           save_portfolio (svc\<lparr>svc_portfolio := p2\<rparr>) db,
           svc\<lparr>svc_portfolio := p2\<rparr>)))))))"

text \<open>
  The balance a trade finds for a currency: that of the wallet, or zero for a currency
  never held, whose wallet \<open>_get_or_create_wallet\<close> creates empty.
\<close>

definition held_balance :: "portfolio \<Rightarrow> string \<Rightarrow> pyfloat" where
  "held_balance p code = (case get_wallet p code of None \<Rightarrow> Fin 0 | Some w \<Rightarrow> balance w)"

section \<open>Example states\<close>

definition example_record :: rate_record where
  "example_record =
     \<lparr>rr_id = ''BTC_USD_2024-01-01T00:00:00Z'', rr_from_currency = ''BTC'',
      rr_to_currency = ''USD'', rr_rate = Fin 59000, rr_timestamp = ''2024-01-01T00:00:00Z'',
      rr_source = ''coingecko'', rr_meta = []\<rparr>"

definition example_rate_data :: rate_data where
  "example_rate_data =
     \<lparr>rd_from_currency = ''ETH'', rd_to_currency = ''USD'', rd_rate = Fin 3000,
      rd_source = ''coingecko'', rd_meta = None\<rparr>"

definition empty_db :: database where
  "empty_db = \<lparr>users_json = Missing, portfolios_json = Missing, rates_json = Missing,
                exchange_rates_json = Missing, writes = []\<rparr>"

definition full_history_db :: database where
  "full_history_db = empty_db\<lparr>exchange_rates_json := Stored (replicate 1000 example_record)\<rparr>"

definition example_cache :: rates_cache where
  "example_cache =
     Cache [(''BTC_USD'', \<lparr>pi_rate = Some (Fin 59000), pi_updated_at = Some ''2024-01-01T00:00:00'',
                           pi_source = Some ''coingecko''\<rparr>),
            (''EUR_USD'', \<lparr>pi_rate = Some (Fin (11 / 10)), pi_updated_at = Some ''2024-01-01T00:00:00'',
                           pi_source = Some ''exchangerate''\<rparr>)]
           (Some ''2024-01-01T00:00:00'')"

definition example_rates :: "(string \<times> pyfloat) list" where
  "example_rates = [(''BTC_USD'', Fin 60000), (''ETH_USD'', Fin 3000)]"

text \<open>
  A world for the trading scenarios: \<open>float("0.01")\<close> is the binary64 value nearest to
  one hundredth, the cached \<open>BTC_USD\<close> rate was written at the instant the naive clock
  shows, and the TTL is the default of 300 seconds.
\<close>

definition example_env :: env where
  "example_env =
     \<lparr>float_of_str = map_of
        [(''0.01'', Fin (5764607523034235 / 576460752303423488)),
         (''0.2'', Fin (3602879701896397 / 18014398509481984)),
         (''1'', Fin 1), (''2000'', Fin 2000), (''nan'', NaN), (''-1'', Fin (- 1))],
      fromisoformat = map_of
        [(''2024-01-01T12:00:00'', Naive 0), (''2024-01-01T12:00:00+00:00'', Aware 0)],
      now_naive = 0, now_aware = 0, RATES_TTL = 300\<rparr>"

text \<open>The same world ten minutes later.\<close>

definition late_env :: env where
  "late_env = example_env\<lparr>now_naive := 600000000, now_aware := 600000000\<rparr>"

definition btc_cache :: "pyfloat \<Rightarrow> rates_cache" where
  "btc_cache rate =
     Cache [(''BTC_USD'', \<lparr>pi_rate = Some rate, pi_updated_at = Some ''2024-01-01T12:00:00'',
                           pi_source = Some ''coingecko''\<rparr>)]
           (Some ''2024-01-01T12:00:00'')"

definition alice_portfolio :: portfolio where
  "alice_portfolio =
     \<lparr>user_id = 1,
      wallets = [(''USD'', \<lparr>wallet_currency_code = ''USD'', balance = Fin 1000\<rparr>)]\<rparr>"

definition alice_service :: service where
  "alice_service = \<lparr>svc_user_id = 1, svc_portfolio = alice_portfolio\<rparr>"

definition alice_user :: user_data where
  "alice_user = \<lparr>ud_user_id = 1, ud_username = ''alice'', ud_hashed_password = ''5e88'',
                  ud_salt = ''00ff'', ud_registration_date = ''2024-01-01T11:00:00''\<rparr>"

definition trading_db :: "pyfloat \<Rightarrow> database" where
  "trading_db rate =
     \<lparr>users_json = Stored [alice_user],
      portfolios_json = Stored [to_dict alice_portfolio],
      rates_json = Stored (btc_cache rate),
      exchange_rates_json = Missing, writes = []\<rparr>"

definition alice_with_btc :: "pyfloat \<Rightarrow> pyfloat \<Rightarrow> portfolio" where
  "alice_with_btc usd btc =
     \<lparr>user_id = 1,
      wallets = [(''USD'', \<lparr>wallet_currency_code = ''USD'', balance = usd\<rparr>),
                 (''BTC'', \<lparr>wallet_currency_code = ''BTC'', balance = btc\<rparr>)]\<rparr>"

text \<open>
  A holder of 20000 USD and of \<open>float("0.1")\<close> BTC, stored as the service holds it.
\<close>

definition holder_service :: service where
  "holder_service =
     \<lparr>svc_user_id = 1,
      svc_portfolio = alice_with_btc (Fin 20000) (Fin (3602879701896397 / 36028797018963968))\<rparr>"

definition holding_db :: database where
  "holding_db =
     (trading_db (Fin 60000))
       \<lparr>portfolios_json := Stored [to_dict (svc_portfolio holder_service)]\<rparr>"

section \<open>Verified properties\<close>

subsection \<open>Association lists as Python dicts\<close>

lemma map_of_dict_update:
  "map_of (dict_update d new) k =
     (case map_of (rev new) k of Some v \<Rightarrow> Some v | None \<Rightarrow> map_of d k)"
  unfolding dict_update_def
  by (induction new arbitrary: d) (auto simp: update_conv' map_add_def split: option.splits)

lemma keys_update: "fst ` set (AList.update k v al) = insert k (fst ` set al)"
proof -
  have "set (map fst (AList.update k v al)) = insert k (set (map fst al))"
    by (auto simp: update_keys)
  then show ?thesis by simp
qed

lemma keys_dict_update: "fst ` set (dict_update d new) = fst ` set d \<union> fst ` set new"
  unfolding dict_update_def
  by (induction new arbitrary: d) (simp_all add: keys_update split_beta)

lemma map_of_rev_distinct:
  assumes "distinct (map fst xs)"
  shows "map_of (rev xs) k = map_of xs k"
proof (cases "map_of xs k")
  case None
  then have "k \<notin> fst ` set (rev xs)" by (simp add: map_of_eq_None_iff)
  then have "map_of (rev xs) k = None" by (simp only: map_of_eq_None_iff not_False_eq_True)
  with None show ?thesis by simp
next
  case (Some v)
  have d: "distinct (map fst (rev xs))" using assms by (simp add: rev_map[symmetric])
  from Some have "(k, v) \<in> set (rev xs)" by (auto dest: map_of_SomeD)
  with d have "map_of (rev xs) k = Some v" by (rule map_of_is_SomeI)
  with Some show ?thesis by simp
qed

lemma map_of_new_pairs:
  "map_of (new_pairs t s rates) k =
     map_option (\<lambda>r. \<lparr>pi_rate = Some r, pi_updated_at = Some t, pi_source = Some s\<rparr>)
       (map_of (rev rates) k)"
proof -
  have "map_of (fold (\<lambda>(pair_key, rate) acc.
             AList.update pair_key
               \<lparr>pi_rate = Some rate, pi_updated_at = Some t, pi_source = Some s\<rparr> acc) rates acc) k
       = (case map_of (rev rates) k of
            Some r \<Rightarrow> Some \<lparr>pi_rate = Some r, pi_updated_at = Some t, pi_source = Some s\<rparr>
          | None \<Rightarrow> map_of acc k)" for acc
    by (induction rates arbitrary: acc) (auto simp: update_conv' map_add_def split: option.splits)
  from this[of "[]"] show ?thesis
    by (simp add: new_pairs_def split: option.splits)
qed

lemma keys_new_pairs: "fst ` set (new_pairs t s rates) = fst ` set rates"
proof -
  have "fst ` set (fold (\<lambda>(pair_key, rate) acc.
             AList.update pair_key
               \<lparr>pi_rate = Some rate, pi_updated_at = Some t, pi_source = Some s\<rparr> acc) rates acc)
       = fst ` set acc \<union> fst ` set rates" for acc
    by (induction rates arbitrary: acc) (simp_all add: keys_update split_beta)
  from this[of "[]"] show ?thesis by (simp add: new_pairs_def)
qed

lemma distinct_new_pairs: "distinct (map fst (new_pairs t s rates))"
proof -
  have "distinct (map fst acc) \<Longrightarrow> distinct (map fst (fold (\<lambda>(pair_key, rate) acc.
             AList.update pair_key
               \<lparr>pi_rate = Some rate, pi_updated_at = Some t, pi_source = Some s\<rparr> acc) rates acc))"
    for acc
    by (induction rates arbitrary: acc) (auto simp: distinct_update)
  from this[of "[]"] show ?thesis by (simp add: new_pairs_def)
qed

subsection \<open>Committing rates to the cache\<close>

text \<open>
  C7: \<open>save_current_rates\<close> writes a cache whose keys are the old keys together with
  the new ones; a key of the new mapping holds the new rate with the write time and the
  source, every other key keeps its entry, and \<open>last_refresh\<close> is the write time.
  The new mapping is a Python dict, so its keys are distinct.
\<close>

theorem save_current_rates_merges:
  assumes "distinct (map fst rates)"
  shows "\<exists>ps'. load_rates_cache (save_current_rates t rates src db) = Cache ps' (Some t)
     \<and> fst ` set ps' = fst ` set (cache_pairs (load_rates_cache db)) \<union> fst ` set rates
     \<and> (\<forall>k. map_of ps' k =
           (case map_of rates k of
              Some r \<Rightarrow> Some \<lparr>pi_rate = Some r, pi_updated_at = Some t, pi_source = Some src\<rparr>
            | None \<Rightarrow> map_of (cache_pairs (load_rates_cache db)) k))"
proof -
  let ?old = "cache_pairs (load_rates_cache db)"
  let ?ps = "dict_update ?old (new_pairs t src rates)"
  have 1: "load_rates_cache (save_current_rates t rates src db) = Cache ?ps (Some t)"
    by (simp add: save_current_rates_def save_rates_cache_def load_rates_cache_def
          load_json_def cache_pairs_def Let_def)
  have 2: "fst ` set ?ps = fst ` set ?old \<union> fst ` set rates"
    by (simp add: keys_dict_update keys_new_pairs)
  have 3: "map_of ?ps k =
           (case map_of rates k of
              Some r \<Rightarrow> Some \<lparr>pi_rate = Some r, pi_updated_at = Some t, pi_source = Some src\<rparr>
            | None \<Rightarrow> map_of ?old k)" for k
    using assms
    by (simp add: map_of_dict_update map_of_rev_distinct[OF distinct_new_pairs]
          map_of_new_pairs map_of_rev_distinct split: option.splits)
  from 1 2 3 show ?thesis by blast
qed

theorem save_current_rates_merges_witness:
  "distinct (map fst example_rates)
   \<and> (\<exists>ps'. load_rates_cache
          (save_current_rates ''2024-01-02T00:00:00'' example_rates ''coingecko''
             (empty_db\<lparr>rates_json := Stored example_cache\<rparr>))
        = Cache ps' (Some ''2024-01-02T00:00:00'')
     \<and> fst ` set ps'
         = fst ` set (cache_pairs (load_rates_cache (empty_db\<lparr>rates_json := Stored example_cache\<rparr>)))
           \<union> fst ` set example_rates
     \<and> (\<forall>k. map_of ps' k =
           (case map_of example_rates k of
              Some r \<Rightarrow> Some \<lparr>pi_rate = Some r, pi_updated_at = Some ''2024-01-02T00:00:00'',
                             pi_source = Some ''coingecko''\<rparr>
            | None \<Rightarrow> map_of (cache_pairs (load_rates_cache
                              (empty_db\<lparr>rates_json := Stored example_cache\<rparr>))) k)))"
proof -
  have d: "distinct (map fst example_rates)"
    by (simp add: example_rates_def)
  show ?thesis
    using d save_current_rates_merges [OF d, of "''2024-01-02T00:00:00''" "''coingecko''"
        "empty_db\<lparr>rates_json := Stored example_cache\<rparr>"]
    by simp
qed

subsection \<open>The capped history\<close>

text \<open>
  C8: after \<open>save_exchange_rate\<close> the history holds at most 1000 records and ends
  with the new record; it is the old history with the new record appended, cut from the
  front to the last 1000, so a history of 1000 records loses exactly its oldest one.
\<close>

theorem save_exchange_rate_capped:
  "length (load_exchange_rates_history (save_exchange_rate stamp iso_now rd db)) \<le> 1000
   \<and> load_exchange_rates_history (save_exchange_rate stamp iso_now rd db) \<noteq> []
   \<and> last (load_exchange_rates_history (save_exchange_rate stamp iso_now rd db))
       = new_record stamp iso_now rd
   \<and> load_exchange_rates_history (save_exchange_rate stamp iso_now rd db)
       = drop (length (load_exchange_rates_history db) + 1 - 1000)
           (load_exchange_rates_history db @ [new_record stamp iso_now rd])
   \<and> (length (load_exchange_rates_history db) = 1000 \<longrightarrow>
        load_exchange_rates_history (save_exchange_rate stamp iso_now rd db)
          = tl (load_exchange_rates_history db) @ [new_record stamp iso_now rd])"
proof -
  let ?h = "load_exchange_rates_history db"
  let ?h' = "load_exchange_rates_history (save_exchange_rate stamp iso_now rd db)"
  let ?r = "new_record stamp iso_now rd"
  have eq: "?h' = drop (length ?h + 1 - 1000) (?h @ [?r])"
    by (simp add: save_exchange_rate_def save_exchange_rates_history_def
          load_exchange_rates_history_def load_json_def Let_def)
  have len: "length ?h' \<le> 1000" by (simp add: eq)
  have ne: "?h' \<noteq> []" by (simp add: eq)
  have lst: "last ?h' = ?r" by (simp add: eq)
  have full: "length ?h = 1000 \<longrightarrow> ?h' = tl ?h @ [?r]"
    by (cases ?h) (simp_all add: eq)
  from eq len ne lst full show ?thesis by blast
qed

theorem save_exchange_rate_capped_witness:
  "length (load_exchange_rates_history full_history_db) = 1000
   \<and> load_exchange_rates_history
        (save_exchange_rate ''2024-01-02T00:00:00Z'' ''2024-01-02T00:00:00.000001''
           example_rate_data full_history_db)
       = tl (load_exchange_rates_history full_history_db)
         @ [new_record ''2024-01-02T00:00:00Z'' ''2024-01-02T00:00:00.000001'' example_rate_data]"
proof -
  have h: "length (load_exchange_rates_history full_history_db) = 1000"
    by (simp add: full_history_db_def load_exchange_rates_history_def load_json_def)
  show ?thesis
    using h save_exchange_rate_capped [of "''2024-01-02T00:00:00Z''"
        "''2024-01-02T00:00:00.000001''" example_rate_data full_history_db]
    by blast
qed

subsection \<open>Loading a store\<close>

text \<open>
  C10: each of the four loads returns its empty default (an empty list, or empty pairs
  with no \<open>last_refresh\<close>) when the file is missing or is not JSON, so a corrupted
  store loads exactly as a missing one, and the next save replaces the content.
\<close>

theorem load_defaults_on_missing_or_corrupt:
  "load_users (db\<lparr>users_json := Missing\<rparr>) = []
   \<and> load_users (db\<lparr>users_json := Corrupt\<rparr>) = []
   \<and> load_portfolios (db\<lparr>portfolios_json := Missing\<rparr>) = []
   \<and> load_portfolios (db\<lparr>portfolios_json := Corrupt\<rparr>) = []
   \<and> load_rates_cache (db\<lparr>rates_json := Missing\<rparr>) = Cache [] None
   \<and> load_rates_cache (db\<lparr>rates_json := Corrupt\<rparr>) = Cache [] None
   \<and> load_exchange_rates_history (db\<lparr>exchange_rates_json := Missing\<rparr>) = []
   \<and> load_exchange_rates_history (db\<lparr>exchange_rates_json := Corrupt\<rparr>) = []
   \<and> load_users (save_users us (db\<lparr>users_json := Corrupt\<rparr>)) = us
   \<and> load_portfolios (save_portfolios ps (db\<lparr>portfolios_json := Corrupt\<rparr>)) = ps
   \<and> load_rates_cache (save_rates_cache c (db\<lparr>rates_json := Corrupt\<rparr>)) = c
   \<and> load_exchange_rates_history
         (save_exchange_rates_history h (db\<lparr>exchange_rates_json := Corrupt\<rparr>)) = h"
  by (simp add: load_users_def load_portfolios_def load_rates_cache_def
        load_exchange_rates_history_def load_json_def save_users_def save_portfolios_def
        save_rates_cache_def save_exchange_rates_history_def)

subsection \<open>Evaluating the example world\<close>

lemmas ex_defs = example_env_def late_env_def btc_cache_def alice_portfolio_def alice_service_def
  alice_user_def trading_db_def

lemma upper_BTC: "upper ''BTC'' = ''BTC''" "upper ''USD'' = ''USD''" "upper ''ETH'' = ''ETH''"
  by (simp_all add: upper_def upper_char_def)

lemma cur_BTC: "get_currency ''BTC'' = Inr \<lparr>cur_code = ''BTC'', cur_name = ''Bitcoin'', cur_kind = CryptoCurrency\<rparr>"
  by (simp add: get_currency_def upper_BTC currencies_def)

lemma cur_ETH: "get_currency ''ETH'' = Inr \<lparr>cur_code = ''ETH'', cur_name = ''Ethereum'', cur_kind = CryptoCurrency\<rparr>"
  by (simp add: get_currency_def upper_BTC currencies_def)

lemma val_001: "validate_amount late_env ''0.01'' = Inr (Fin (5764607523034235 / 576460752303423488))"
  by (simp add: validate_amount_def ex_defs)

lemma mul_1_60000: "fmul (Fin 1) (Fin 60000) = Fin 60000"
  by code_simp

lemma mul_001_60000: "fmul (Fin (5764607523034235 / 576460752303423488)) (Fin 60000) = Fin 600"
  by code_simp

lemma sub_1000_600: "fsub (Fin 1000) (Fin 600) = Fin 400"
  by code_simp

lemma add_0_001: "fadd (Fin 0) (Fin (5764607523034235 / 576460752303423488))
    = Fin (5764607523034235 / 576460752303423488)"
  by code_simp

lemma val_fresh:
  "validate_amount example_env ''0.01'' = Inr (Fin (5764607523034235 / 576460752303423488))"
  "validate_amount example_env ''1'' = Inr (Fin 1)"
  by (simp_all add: validate_amount_def ex_defs)

lemma rate_fresh:
  "get_cached_rate example_env (trading_db (Fin 60000)) ''BTC'' ''USD''
     = Some (Fin 60000, Naive 0, True)"
  by (simp add: get_cached_rate_def pair_key_def upper_BTC pairs_of_def load_rates_cache_def
        load_json_def ex_defs truthy_def replace_Z_def is_fresh_at_def)

lemma alice_wallets:
  "get_wallet alice_portfolio ''USD'' = Some \<lparr>wallet_currency_code = ''USD'', balance = Fin 1000\<rparr>"
  "get_wallet alice_portfolio ''BTC'' = None"
  "held_balance alice_portfolio ''USD'' = Fin 1000"
  "held_balance alice_portfolio ''BTC'' = Fin 0"
  by (simp_all add: held_balance_def get_wallet_def upper_BTC alice_portfolio_def)

lemma prepare_creates_btc:
  "get_or_create_wallet ''USD'' alice_portfolio = Inr alice_portfolio"
  "get_or_create_wallet ''BTC'' alice_portfolio = Inr (alice_with_btc (Fin 1000) (Fin 0))"
  "get_or_create_wallet ''USD'' (alice_with_btc x y) = Inr (alice_with_btc x y)"
  "get_or_create_wallet ''BTC'' (alice_with_btc x y) = Inr (alice_with_btc x y)"
  by (simp_all add: get_or_create_wallet_def get_wallet_def add_currency_def Wallet_def upper_BTC
        alice_portfolio_def alice_with_btc_def)

lemma alice_with_btc_wallets:
  "get_wallet (alice_with_btc x y) ''USD'' = Some \<lparr>wallet_currency_code = ''USD'', balance = x\<rparr>"
  "get_wallet (alice_with_btc x y) ''BTC'' = Some \<lparr>wallet_currency_code = ''BTC'', balance = y\<rparr>"
  "balance_of (alice_with_btc x y) ''USD'' = Inr x"
  "balance_of (alice_with_btc x y) ''BTC'' = Inr y"
  "held_balance (alice_with_btc x y) ''USD'' = x"
  "held_balance (alice_with_btc x y) ''BTC'' = y"
  by (simp_all add: balance_of_def held_balance_def get_wallet_def upper_BTC alice_with_btc_def)

lemma alice_with_btc_update:
  "on_wallet m ''USD'' f (alice_with_btc x y)
     = (case f \<lparr>wallet_currency_code = ''USD'', balance = x\<rparr> of
          Inl e \<Rightarrow> Inl e
        | Inr w' \<Rightarrow> Inr \<lparr>user_id = 1, wallets = [(''USD'', w'),
            (''BTC'', \<lparr>wallet_currency_code = ''BTC'', balance = y\<rparr>)]\<rparr>)"
  "on_wallet m ''BTC'' f (alice_with_btc x y)
     = (case f \<lparr>wallet_currency_code = ''BTC'', balance = y\<rparr> of
          Inl e \<Rightarrow> Inl e
        | Inr w' \<Rightarrow> Inr \<lparr>user_id = 1, wallets = [(''USD'',
            \<lparr>wallet_currency_code = ''USD'', balance = x\<rparr>), (''BTC'', w')]\<rparr>)"
  unfolding on_wallet_def alice_with_btc_wallets upper_BTC
  by (simp_all add: alice_with_btc_def split: sum.splits)

lemma prepare_buy_scenario:
  "prepare_transaction example_env (trading_db (Fin 60000)) alice_portfolio ''BTC'' ''0.01'' ''USD''
     ''buy''
   = (Inr (Fin (5764607523034235 / 576460752303423488), Fin 60000, ''USD'', ''BTC'', True),
      alice_with_btc (Fin 1000) (Fin 0))"
  by (simp add: prepare_transaction_def val_fresh cur_BTC rate_fresh prepare_creates_btc
        alice_with_btc_wallets mul_001_60000 del: fmul.simps)

lemma mul_02_60000: "fmul (Fin (3602879701896397 / 18014398509481984)) (Fin 60000) = Fin 12000"
  by code_simp

lemma sub_20000_12000: "fsub (Fin 20000) (Fin 12000) = Fin 8000"
  by code_simp

lemma add_01_02:
  "fadd (Fin (3602879701896397 / 36028797018963968)) (Fin (3602879701896397 / 18014398509481984))
     = Fin (1351079888211149 / 4503599627370496)"
  by code_simp

lemma sub_03_02:
  "fsub (Fin (1351079888211149 / 4503599627370496)) (Fin (3602879701896397 / 18014398509481984))
     = Fin (1801439850948199 / 18014398509481984)"
  by code_simp

lemma add_8000_12000: "fadd (Fin 8000) (Fin 12000) = Fin 20000"
  by code_simp

lemma val_02: "validate_amount example_env ''0.2'' = Inr (Fin (3602879701896397 / 18014398509481984))"
  by (simp add: validate_amount_def ex_defs)

lemma rate_fresh_any_portfolios:
  "get_cached_rate example_env ((trading_db (Fin 60000))\<lparr>portfolios_json := ps, writes := ws\<rparr>)
     ''BTC'' ''USD'' = Some (Fin 60000, Naive 0, True)"
  "get_cached_rate example_env ((trading_db (Fin 60000))\<lparr>portfolios_json := ps\<rparr>)
     ''BTC'' ''USD'' = Some (Fin 60000, Naive 0, True)"
  by (simp_all add: get_cached_rate_def pair_key_def upper_BTC pairs_of_def load_rates_cache_def
        load_json_def ex_defs truthy_def replace_Z_def is_fresh_at_def)

lemma save_alice_with_btc:
  "save_portfolio \<lparr>svc_user_id = 1, svc_portfolio = alice_with_btc x y\<rparr>
     ((trading_db (Fin 60000))\<lparr>portfolios_json := Stored [to_dict (alice_with_btc x' y')], writes := ws\<rparr>)
   = (trading_db (Fin 60000))
       \<lparr>portfolios_json := Stored [to_dict (alice_with_btc x y)],
        writes := ws @ [''portfolios.json'']\<rparr>"
  by (simp add: save_portfolio_def trading_db_def load_portfolios_def
        load_json_def to_dict_def alice_with_btc_def save_portfolios_def)

lemma holding_db_eq:
  "holding_db = (trading_db (Fin 60000))
       \<lparr>portfolios_json := Stored [to_dict (alice_with_btc (Fin 20000)
            (Fin (3602879701896397 / 36028797018963968)))], writes := []\<rparr>"
  by (simp add: holding_db_def holder_service_def trading_db_def)

lemma buy_02:
  "buy_currency example_env ''BTC'' ''0.2'' ''USD'' (holding_db, holder_service)
     = (Inl (AttributeError (No_attribute ''str'' ''code'')),
        (trading_db (Fin 60000))
          \<lparr>portfolios_json := Stored [to_dict (alice_with_btc (Fin 8000)
               (Fin (1351079888211149 / 4503599627370496)))],
           writes := [''portfolios.json'']\<rparr>,
        \<lparr>svc_user_id = 1, svc_portfolio = alice_with_btc (Fin 8000)
               (Fin (1351079888211149 / 4503599627370496))\<rparr>)"
proof -
  let ?a = "Fin (3602879701896397 / 18014398509481984)"
  let ?x = "Fin (3602879701896397 / 36028797018963968)"
  have p: "prepare_transaction example_env
             ((trading_db (Fin 60000))
                \<lparr>portfolios_json := Stored [to_dict (alice_with_btc (Fin 20000) ?x)], writes := []\<rparr>)
             (alice_with_btc (Fin 20000) ?x) ''BTC'' ''0.2'' ''USD'' ''buy''
           = (Inr (?a, Fin 60000, ''USD'', ''BTC'', True), alice_with_btc (Fin 20000) ?x)"
    by (simp add: prepare_transaction_def val_02 cur_BTC rate_fresh_any_portfolios
        prepare_creates_btc alice_with_btc_wallets mul_02_60000 del: fmul.simps)
  have w: "on_wallet ''withdraw'' ''USD'' (withdraw (fmul ?a (Fin 60000)))
             (alice_with_btc (Fin 20000) ?x) = Inr (alice_with_btc (Fin 8000) ?x)"
    by (simp add: alice_with_btc_update withdraw_def mul_02_60000 sub_20000_12000
          del: fmul.simps) (simp_all add: alice_with_btc_def)
  have d: "on_wallet ''deposit'' ''BTC'' (deposit ?a) (alice_with_btc (Fin 8000) ?x)
             = Inr (alice_with_btc (Fin 8000) (Fin (1351079888211149 / 4503599627370496)))"
    by (simp add: alice_with_btc_update deposit_def add_01_02
          del: fadd.simps) (simp_all add: alice_with_btc_def)
  show ?thesis
    by (simp add: buy_currency_def holder_service_def p w d str_code_def
          save_alice_with_btc[where ws = "[]", simplified] holding_db_eq del: fmul.simps)
qed

lemma sell_02:
  "sell_currency example_env ''BTC'' ''0.2'' ''USD''
     ((trading_db (Fin 60000))
          \<lparr>portfolios_json := Stored [to_dict (alice_with_btc (Fin 8000)
               (Fin (1351079888211149 / 4503599627370496)))],
           writes := [''portfolios.json'']\<rparr>,
        \<lparr>svc_user_id = 1, svc_portfolio = alice_with_btc (Fin 8000)
               (Fin (1351079888211149 / 4503599627370496))\<rparr>)
     = (Inr \<lparr>sr_currency = ''BTC'', sr_amount = Fin (3602879701896397 / 18014398509481984),
             sr_rate = Fin 60000, sr_proceeds = Fin 12000, sr_base_currency = ''USD'',
             sr_new_balance = Fin (1801439850948199 / 18014398509481984),
             sr_base_balance = Fin 20000, sr_rate_fresh = True\<rparr>,
        (trading_db (Fin 60000))
          \<lparr>portfolios_json := Stored [to_dict (alice_with_btc (Fin 20000)
               (Fin (1801439850948199 / 18014398509481984)))],
           writes := [''portfolios.json'', ''portfolios.json'']\<rparr>,
        \<lparr>svc_user_id = 1, svc_portfolio = alice_with_btc (Fin 20000)
               (Fin (1801439850948199 / 18014398509481984))\<rparr>)"
proof -
  let ?a = "Fin (3602879701896397 / 18014398509481984)"
  let ?y = "Fin (1351079888211149 / 4503599627370496)"
  let ?z = "Fin (1801439850948199 / 18014398509481984)"
  let ?db = "(trading_db (Fin 60000))
          \<lparr>portfolios_json := Stored [to_dict (alice_with_btc (Fin 8000) ?y)],
           writes := [''portfolios.json'']\<rparr>"
  have p: "prepare_transaction example_env ?db (alice_with_btc (Fin 8000) ?y)
             ''BTC'' ''0.2'' ''USD'' ''sell''
           = (Inr (?a, Fin 60000, ''BTC'', ''USD'', True), alice_with_btc (Fin 8000) ?y)"
    by (simp add: prepare_transaction_def val_02 cur_BTC rate_fresh_any_portfolios
        prepare_creates_btc alice_with_btc_wallets del: fmul.simps)
  have w: "on_wallet ''withdraw'' ''BTC'' (withdraw ?a) (alice_with_btc (Fin 8000) ?y)
             = Inr (alice_with_btc (Fin 8000) ?z)"
    by (simp add: alice_with_btc_update withdraw_def sub_03_02)
       (simp_all add: alice_with_btc_def)
  have d: "on_wallet ''deposit'' ''USD'' (deposit (Fin 12000)) (alice_with_btc (Fin 8000) ?z)
             = Inr (alice_with_btc (Fin 20000) ?z)"
    by (simp add: alice_with_btc_update deposit_def add_8000_12000
          del: fadd.simps) (simp_all add: alice_with_btc_def)
  show ?thesis
    by (simp add: sell_currency_def p w d alice_with_btc_wallets mul_02_60000 upper_BTC
          save_alice_with_btc[where ws = "[''portfolios.json'']", simplified] del: fmul.simps)
qed

lemma round64_scenario:
  "round64 (1000 - 600) = Fin (1000 - 600)"
  "round64 (0 + 5764607523034235 / 576460752303423488)
     = Fin (0 + 5764607523034235 / 576460752303423488)"
  "round64 1000 = Fin 1000"
  by code_simp+

subsection \<open>The rate cache lookup\<close>

lemma get_cached_rate_absent:
  "map_of (pairs_of (load_rates_cache db)) (pair_key f t) = None \<Longrightarrow> get_cached_rate ev db f t = None"
  by (simp add: get_cached_rate_def)

lemma get_cached_rate_no_rate:
  "map_of (pairs_of (load_rates_cache db)) (pair_key f t) = Some e \<Longrightarrow> pi_rate e = None \<or> pi_rate e = Some (Fin 0)
     \<Longrightarrow> get_cached_rate ev db f t = None"
  by (auto simp: get_cached_rate_def truthy_def split: option.splits)

lemma get_cached_rate_no_time:
  "map_of (pairs_of (load_rates_cache db)) (pair_key f t) = Some e \<Longrightarrow>
     pi_updated_at e = None \<or> pi_updated_at e = Some [] \<or>
     (\<exists>s. pi_updated_at e = Some s \<and> fromisoformat ev (replace_Z s) = None)
     \<Longrightarrow> get_cached_rate ev db f t = None"
  by (auto simp: get_cached_rate_def truthy_def split: option.splits)

lemma get_cached_rate_present:
  "map_of (pairs_of (load_rates_cache db)) (pair_key f t) = Some e \<Longrightarrow> pi_rate e = Some r \<Longrightarrow> r \<noteq> Fin 0
     \<Longrightarrow> pi_updated_at e = Some s \<Longrightarrow> s \<noteq> [] \<Longrightarrow> fromisoformat ev (replace_Z s) = Some u
     \<Longrightarrow> get_cached_rate ev db f t = Some (r, u, is_fresh_at ev u)"
  by (auto simp: get_cached_rate_def truthy_def split: option.splits)

lemma prepare_unavailable:
  "validate_amount ev amount = Inr a \<Longrightarrow> get_currency code = Inr cur \<Longrightarrow>
   get_cached_rate ev db (cur_code cur) base = None \<Longrightarrow>
   prepare_transaction ev db p code amount base tt
     = (Inl (ApiRequestError (Rate_unavailable (cur_code cur) base)), p)"
  by (simp add: prepare_transaction_def)

lemma prepare_stale:
  "validate_amount ev amount = Inr a \<Longrightarrow> get_currency code = Inr cur \<Longrightarrow>
   get_cached_rate ev db (cur_code cur) base = Some (r, u, False) \<Longrightarrow>
   prepare_transaction ev db p code amount base tt
     = (Inl (ApiRequestError (Rate_stale (cur_code cur) base)), p)"
  by (simp add: prepare_transaction_def)

text \<open>
  C5, as the code has it: the lookup returns nothing when the pair is absent, when the
  entry has no rate or the rate is zero, and when \<open>updated_at\<close> is missing, empty or
  does not parse; in every other case, a negative rate included, it returns the stored
  rate, the parsed \<open>updated_at\<close> and the freshness flag.
\<close>

theorem get_cached_rate_cases:
  "(map_of (pairs_of (load_rates_cache db)) (pair_key f t) = None \<longrightarrow>
      get_cached_rate ev db f t = None)
   \<and> (map_of (pairs_of (load_rates_cache db)) (pair_key f t) = Some e
       \<and> (pi_rate e = None \<or> pi_rate e = Some (Fin 0) \<or> pi_updated_at e = None
            \<or> pi_updated_at e = Some []
            \<or> (\<exists>s. pi_updated_at e = Some s \<and> fromisoformat ev (replace_Z s) = None)) \<longrightarrow>
      get_cached_rate ev db f t = None)
   \<and> (map_of (pairs_of (load_rates_cache db)) (pair_key f t) = Some e
       \<and> pi_rate e = Some r \<and> r \<noteq> Fin 0 \<and> pi_updated_at e = Some s \<and> s \<noteq> []
       \<and> fromisoformat ev (replace_Z s) = Some u \<longrightarrow>
      get_cached_rate ev db f t = Some (r, u, is_fresh_at ev u))"
  by (auto simp: get_cached_rate_def truthy_def split: option.splits)

theorem get_cached_rate_cases_witness:
  "map_of (pairs_of (load_rates_cache (trading_db (Fin (- 5))))) (pair_key ''ETH'' ''USD'') = None
   \<and> get_cached_rate example_env (trading_db (Fin (- 5))) ''ETH'' ''USD'' = None
   \<and> map_of (pairs_of (load_rates_cache (trading_db (Fin 0)))) (pair_key ''BTC'' ''USD'')
       = Some \<lparr>pi_rate = Some (Fin 0), pi_updated_at = Some ''2024-01-01T12:00:00'',
                 pi_source = Some ''coingecko''\<rparr>
   \<and> get_cached_rate example_env (trading_db (Fin 0)) ''BTC'' ''USD'' = None
   \<and> map_of (pairs_of (load_rates_cache (trading_db (Fin (- 5))))) (pair_key ''BTC'' ''USD'')
       = Some \<lparr>pi_rate = Some (Fin (- 5)), pi_updated_at = Some ''2024-01-01T12:00:00'',
                 pi_source = Some ''coingecko''\<rparr>
   \<and> Fin (- 5) \<noteq> Fin 0
   \<and> fromisoformat example_env (replace_Z ''2024-01-01T12:00:00'') = Some (Naive 0)
   \<and> get_cached_rate example_env (trading_db (Fin (- 5))) ''BTC'' ''USD''
       = Some (Fin (- 5), Naive 0, is_fresh_at example_env (Naive 0))"
proof -
  let ?e = "\<lambda>r. \<lparr>pi_rate = Some r, pi_updated_at = Some ''2024-01-01T12:00:00'',
                 pi_source = Some ''coingecko''\<rparr>"
  have k: "pair_key ''ETH'' ''USD'' = ''ETH_USD''" "pair_key ''BTC'' ''USD'' = ''BTC_USD''"
    by (simp_all add: pair_key_def upper_BTC)
  have ps: "pairs_of (load_rates_cache (trading_db r)) = [(''BTC_USD'', ?e r)]" for r
    by (simp add: ex_defs pairs_of_def load_rates_cache_def load_json_def)
  have 1: "map_of (pairs_of (load_rates_cache (trading_db (Fin (- 5))))) (pair_key ''ETH'' ''USD'') = None"
    by (simp add: ps k)
  have 2: "map_of (pairs_of (load_rates_cache (trading_db (Fin 0)))) (pair_key ''BTC'' ''USD'')
       = Some (?e (Fin 0))"
    by (simp add: ps k)
  have 3: "map_of (pairs_of (load_rates_cache (trading_db (Fin (- 5))))) (pair_key ''BTC'' ''USD'')
       = Some (?e (Fin (- 5)))"
    by (simp add: ps k)
  have 4: "fromisoformat example_env (replace_Z ''2024-01-01T12:00:00'') = Some (Naive 0)"
    by (simp add: ex_defs replace_Z_def)
  have 5: "Fin (- 5) \<noteq> Fin 0" by simp
  note a = get_cached_rate_cases [where db = "trading_db (Fin (- 5))" and f = "''ETH''"
      and t = "''USD''" and ev = example_env]
  note b = get_cached_rate_cases [where db = "trading_db (Fin 0)" and f = "''BTC''"
      and t = "''USD''" and ev = example_env and e = "?e (Fin 0)"]
  note c = get_cached_rate_cases [where db = "trading_db (Fin (- 5))" and f = "''BTC''"
      and t = "''USD''" and ev = example_env and e = "?e (Fin (- 5))" and r = "Fin (- 5)"
      and s = "''2024-01-01T12:00:00''" and u = "Naive 0"]
  from a 1 have A: "get_cached_rate example_env (trading_db (Fin (- 5))) ''ETH'' ''USD'' = None"
    by blast
  from b 2 have B: "get_cached_rate example_env (trading_db (Fin 0)) ''BTC'' ''USD'' = None"
    by simp
  from c 3 4 5 have C: "get_cached_rate example_env (trading_db (Fin (- 5))) ''BTC'' ''USD''
       = Some (Fin (- 5), Naive 0, is_fresh_at example_env (Naive 0))"
    by simp
  from 1 2 3 4 5 A B C show ?thesis by blast
qed

text \<open>
  The claim of C5 itself asks for nothing on every rate \<open>\<le> 0\<close>: a stored rate of
  \<open>- 5\<close> is returned, and fresh.
\<close>

theorem negative_rate_returned:
  "get_cached_rate example_env (trading_db (Fin (- 5))) ''BTC'' ''USD''
     = Some (Fin (- 5), Naive 0, True)
   \<and> fle (Fin (- 5)) (Fin 0)"
  by (simp add: get_cached_rate_def pair_key_def upper_BTC pairs_of_def load_rates_cache_def
        load_json_def ex_defs truthy_def replace_Z_def is_fresh_at_def)

subsection \<open>Trades are gated on the cached rate\<close>

text \<open>
  C1: for a valid amount and a known currency, a buy and a sell both fail when the pair
  is not in the cache (\<open>ApiRequestError\<close> with the rate-unavailable message) and when
  the cached rate is not fresh (\<open>ApiRequestError\<close> with the rate-stale message); the data
  directory, its write log and the portfolio object are then exactly as before.
\<close>

theorem trade_gated_on_rate:
  assumes "validate_amount ev amount = Inr a" and "get_currency code = Inr cur"
  shows "(map_of (pairs_of (load_rates_cache db)) (pair_key (cur_code cur) base) = None \<longrightarrow>
            buy_currency ev code amount base (db, svc)
              = (Inl (ApiRequestError (Rate_unavailable (cur_code cur) base)), db, svc)
          \<and> sell_currency ev code amount base (db, svc)
              = (Inl (ApiRequestError (Rate_unavailable (cur_code cur) base)), db, svc))
       \<and> (map_of (pairs_of (load_rates_cache db)) (pair_key (cur_code cur) base) = Some e
          \<and> pi_rate e = Some r \<and> r \<noteq> Fin 0 \<and> pi_updated_at e = Some s \<and> s \<noteq> []
          \<and> fromisoformat ev (replace_Z s) = Some u \<and> \<not> is_fresh_at ev u \<longrightarrow>
            buy_currency ev code amount base (db, svc)
              = (Inl (ApiRequestError (Rate_stale (cur_code cur) base)), db, svc)
          \<and> sell_currency ev code amount base (db, svc)
              = (Inl (ApiRequestError (Rate_stale (cur_code cur) base)), db, svc))"
proof (intro conjI impI)
  assume "map_of (pairs_of (load_rates_cache db)) (pair_key (cur_code cur) base) = None"
  then have n: "get_cached_rate ev db (cur_code cur) base = None"
    by (rule get_cached_rate_absent)
  show "buy_currency ev code amount base (db, svc)
          = (Inl (ApiRequestError (Rate_unavailable (cur_code cur) base)), db, svc)"
    by (simp add: buy_currency_def prepare_unavailable[OF assms n])
  show "sell_currency ev code amount base (db, svc)
          = (Inl (ApiRequestError (Rate_unavailable (cur_code cur) base)), db, svc)"
    by (simp add: sell_currency_def prepare_unavailable[OF assms n])
next
  assume h: "map_of (pairs_of (load_rates_cache db)) (pair_key (cur_code cur) base) = Some e
          \<and> pi_rate e = Some r \<and> r \<noteq> Fin 0 \<and> pi_updated_at e = Some s \<and> s \<noteq> []
          \<and> fromisoformat ev (replace_Z s) = Some u \<and> \<not> is_fresh_at ev u"
  then have "get_cached_rate ev db (cur_code cur) base = Some (r, u, is_fresh_at ev u)"
    by (intro get_cached_rate_present) auto
  with h have st: "get_cached_rate ev db (cur_code cur) base = Some (r, u, False)" by simp
  show "buy_currency ev code amount base (db, svc)
          = (Inl (ApiRequestError (Rate_stale (cur_code cur) base)), db, svc)"
    by (simp add: buy_currency_def prepare_stale[OF assms st])
  show "sell_currency ev code amount base (db, svc)
          = (Inl (ApiRequestError (Rate_stale (cur_code cur) base)), db, svc)"
    by (simp add: sell_currency_def prepare_stale[OF assms st])
qed

theorem trade_gated_on_rate_witness:
  "validate_amount late_env ''0.01'' = Inr (Fin (5764607523034235 / 576460752303423488))
   \<and> get_currency ''ETH'' = Inr \<lparr>cur_code = ''ETH'', cur_name = ''Ethereum'', cur_kind = CryptoCurrency\<rparr>
   \<and> get_currency ''BTC'' = Inr \<lparr>cur_code = ''BTC'', cur_name = ''Bitcoin'', cur_kind = CryptoCurrency\<rparr>
   \<and> map_of (pairs_of (load_rates_cache (trading_db (Fin 60000)))) (pair_key ''ETH'' ''USD'') = None
   \<and> buy_currency late_env ''ETH'' ''0.01'' ''USD'' (trading_db (Fin 60000), alice_service)
       = (Inl (ApiRequestError (Rate_unavailable ''ETH'' ''USD'')), trading_db (Fin 60000), alice_service)
   \<and> sell_currency late_env ''ETH'' ''0.01'' ''USD'' (trading_db (Fin 60000), alice_service)
       = (Inl (ApiRequestError (Rate_unavailable ''ETH'' ''USD'')), trading_db (Fin 60000), alice_service)
   \<and> map_of (pairs_of (load_rates_cache (trading_db (Fin 60000)))) (pair_key ''BTC'' ''USD'')
       = Some \<lparr>pi_rate = Some (Fin 60000), pi_updated_at = Some ''2024-01-01T12:00:00'',
                 pi_source = Some ''coingecko''\<rparr>
   \<and> fromisoformat late_env (replace_Z ''2024-01-01T12:00:00'') = Some (Naive 0)
   \<and> \<not> is_fresh_at late_env (Naive 0)
   \<and> buy_currency late_env ''BTC'' ''0.01'' ''USD'' (trading_db (Fin 60000), alice_service)
       = (Inl (ApiRequestError (Rate_stale ''BTC'' ''USD'')), trading_db (Fin 60000), alice_service)
   \<and> sell_currency late_env ''BTC'' ''0.01'' ''USD'' (trading_db (Fin 60000), alice_service)
       = (Inl (ApiRequestError (Rate_stale ''BTC'' ''USD'')), trading_db (Fin 60000), alice_service)"
proof -
  let ?db = "trading_db (Fin 60000)"
  let ?e = "\<lparr>pi_rate = Some (Fin 60000), pi_updated_at = Some ''2024-01-01T12:00:00'',
                 pi_source = Some ''coingecko''\<rparr>"
  have k: "pair_key ''ETH'' ''USD'' = ''ETH_USD''" "pair_key ''BTC'' ''USD'' = ''BTC_USD''"
    by (simp_all add: pair_key_def upper_BTC)
  have ps: "pairs_of (load_rates_cache ?db) = [(''BTC_USD'', ?e)]"
    by (simp add: ex_defs pairs_of_def load_rates_cache_def load_json_def)
  have 1: "map_of (pairs_of (load_rates_cache ?db)) (pair_key ''ETH'' ''USD'') = None"
    by (simp add: ps k)
  have 2: "map_of (pairs_of (load_rates_cache ?db)) (pair_key ''BTC'' ''USD'') = Some ?e"
    by (simp add: ps k)
  have 3: "fromisoformat late_env (replace_Z ''2024-01-01T12:00:00'') = Some (Naive 0)"
    by (simp add: ex_defs replace_Z_def)
  have 4: "\<not> is_fresh_at late_env (Naive 0)"
    by (simp add: ex_defs is_fresh_at_def)
  note a = trade_gated_on_rate [OF val_001 cur_ETH, where db = "?db" and base = "''USD''"
      and svc = alice_service]
  note b = trade_gated_on_rate [OF val_001 cur_BTC, where db = "?db" and base = "''USD''"
      and svc = alice_service and e = ?e and r = "Fin 60000" and s = "''2024-01-01T12:00:00''"
      and u = "Naive 0"]
  show ?thesis
    using val_001 cur_ETH cur_BTC 1 2 3 4 a b by simp
qed

subsection \<open>Registration\<close>

lemma py_max_ge: "x \<in> set xs \<Longrightarrow> x \<le> py_max xs d"
proof (cases xs)
  case Nil
  then show "x \<in> set xs \<Longrightarrow> ?thesis" by simp
next
  case (Cons y ys)
  assume "x \<in> set xs"
  moreover have "fold max ys y = Max (set (y # ys))"
    by (rule Max.set_eq_fold[symmetric])
  then have "py_max xs d = Max (set (y # ys))"
    by (simp only: py_max_def Cons list.case)
  ultimately show ?thesis using Cons by (metis List.finite_set Max_ge)
qed

text \<open>
  C9: registering a username that a stored user has fails and leaves the data directory
  as it was (no user, no portfolio, no write); with a well-formed username and password
  the failure is the \<open>ValueError\<close> saying that the name is taken. A registration that
  succeeds appends the user with an id above every stored id.
\<close>

theorem register_duplicate_username:
  "(u \<in> set (load_users db) \<and> ud_username u = username \<longrightarrow>
      (\<exists>e. register sha256_hex salt reg_date username password db = (Inl e, db))
      \<and> (username \<noteq> [] \<and> strip username \<noteq> [] \<and> 4 \<le> length password \<longrightarrow>
           register sha256_hex salt reg_date username password db
             = (Inl (ValueError (Username_taken username)), db)))
   \<and> (register sha256_hex salt reg_date username password db = (Inr user, db') \<longrightarrow>
        (\<forall>v \<in> set (load_users db). ud_user_id v < ud_user_id user)
        \<and> load_users db' = load_users db @ [user]
        \<and> ud_username user = username)"
proof (intro conjI impI)
  assume d: "u \<in> set (load_users db) \<and> ud_username u = username"
  then have f: "find (\<lambda>u. ud_username u = username) (load_users db) \<noteq> None"
    by (auto simp: find_None_iff)
  then show "\<exists>e. register sha256_hex salt reg_date username password db = (Inl e, db)"
    by (simp add: register_def)
  assume "username \<noteq> [] \<and> strip username \<noteq> [] \<and> 4 \<le> length password"
  with f show "register sha256_hex salt reg_date username password db
             = (Inl (ValueError (Username_taken username)), db)"
    by (simp add: register_def)
next
  assume r: "register sha256_hex salt reg_date username password db = (Inr user, db')"
  let ?id = "py_max (map ud_user_id (load_users db)) 0 + 1"
  from r have u: "User sha256_hex salt reg_date ?id username password = Inr user"
    and db': "db' = save_portfolios
                (load_portfolios (save_users (load_users db @ [user]) db)
                   @ [to_dict \<lparr>user_id = ud_user_id user, wallets = []\<rparr>])
                (save_users (load_users db @ [user]) db)"
    by (auto simp: register_def split: if_splits sum.splits)
  from u have uid: "ud_user_id user = ?id" and un: "ud_username user = username"
    by (auto simp: User_def split: if_splits)
  show "\<forall>v \<in> set (load_users db). ud_user_id v < ud_user_id user"
  proof
    fix v assume "v \<in> set (load_users db)"
    then have "ud_user_id v \<le> py_max (map ud_user_id (load_users db)) 0"
      by (intro py_max_ge) simp
    then show "ud_user_id v < ud_user_id user" by (simp add: uid)
  qed
  show "load_users db' = load_users db @ [user]"
    by (simp add: db' save_portfolios_def save_users_def load_users_def load_json_def)
  show "ud_username user = username" by (rule un)
qed

theorem register_duplicate_username_witness:
  "alice_user \<in> set (load_users (trading_db (Fin 60000)))
   \<and> ud_username alice_user = ''alice''
   \<and> ''alice'' \<noteq> [] \<and> strip ''alice'' \<noteq> [] \<and> 4 \<le> length ''secret''
   \<and> register (\<lambda>s. ''9f86'') ''a1b2'' ''2024-01-02T09:00:00'' ''alice'' ''secret''
         (trading_db (Fin 60000))
       = (Inl (ValueError (Username_taken ''alice'')), trading_db (Fin 60000))
   \<and> fst (register (\<lambda>s. ''9f86'') ''a1b2'' ''2024-01-02T09:00:00'' ''bob'' ''secret''
         (trading_db (Fin 60000)))
       = Inr \<lparr>ud_user_id = 2, ud_username = ''bob'', ud_hashed_password = ''9f86'',
                ud_salt = ''a1b2'', ud_registration_date = ''2024-01-02T09:00:00''\<rparr>
   \<and> ud_user_id alice_user < 2
   \<and> load_users (snd (register (\<lambda>s. ''9f86'') ''a1b2'' ''2024-01-02T09:00:00'' ''bob'' ''secret''
         (trading_db (Fin 60000))))
       = [alice_user,
          \<lparr>ud_user_id = 2, ud_username = ''bob'', ud_hashed_password = ''9f86'',
            ud_salt = ''a1b2'', ud_registration_date = ''2024-01-02T09:00:00''\<rparr>]"
proof -
  let ?db = "trading_db (Fin 60000)"
  let ?bob = "\<lparr>ud_user_id = 2, ud_username = ''bob'', ud_hashed_password = ''9f86'',
                ud_salt = ''a1b2'', ud_registration_date = ''2024-01-02T09:00:00''\<rparr>"
  let ?reg = "register (\<lambda>s. ''9f86'') ''a1b2'' ''2024-01-02T09:00:00''"
  have us: "load_users ?db = [alice_user]"
    by (simp add: trading_db_def load_users_def load_json_def)
  have 1: "alice_user \<in> set (load_users ?db) \<and> ud_username alice_user = ''alice''"
    by (simp add: us) (simp add: alice_user_def)
  have 2: "''alice'' \<noteq> [] \<and> strip ''alice'' \<noteq> [] \<and> 4 \<le> length ''secret''"
    by (simp add: strip_def is_space_def)
  have 3: "strip ''bob'' \<noteq> []"
    by (simp add: strip_def is_space_def)
  have 4: "fst (?reg ''bob'' ''secret'' ?db) = Inr ?bob"
    using 3 by (simp add: register_def us User_def hash_password_def py_max_def alice_user_def)
  then have 5: "?reg ''bob'' ''secret'' ?db = (Inr ?bob, snd (?reg ''bob'' ''secret'' ?db))"
    by (metis prod.collapse)
  note t = register_duplicate_username [where u = alice_user and db = ?db and username = "''alice''"
      and password = "''secret''" and sha256_hex = "\<lambda>s. ''9f86''" and salt = "''a1b2''"
      and reg_date = "''2024-01-02T09:00:00''"]
  note t2 = register_duplicate_username [where db = ?db and username = "''bob''"
      and password = "''secret''" and sha256_hex = "\<lambda>s. ''9f86''" and salt = "''a1b2''"
      and reg_date = "''2024-01-02T09:00:00''" and user = ?bob
      and db' = "snd (?reg ''bob'' ''secret'' ?db)"]
  from t 1 2 have a: "?reg ''alice'' ''secret'' ?db = (Inl (ValueError (Username_taken ''alice'')), ?db)"
    by blast
  from t2 5 have b: "(\<forall>v \<in> set (load_users ?db). ud_user_id v < ud_user_id ?bob)
      \<and> load_users (snd (?reg ''bob'' ''secret'' ?db)) = load_users ?db @ [?bob]"
    by blast
  from b 1 have c: "ud_user_id alice_user < 2" by fastforce
  from b have d: "load_users (snd (?reg ''bob'' ''secret'' ?db)) = [alice_user, ?bob]"
    by (simp add: us)
  from 1 2 a 4 c d show ?thesis by blast
qed

subsection \<open>Insufficient funds\<close>

lemma get_or_create_wallet_cases:
  "\<exists>p'. get_or_create_wallet code p = Inr p' \<and> user_id p' = user_id p
     \<and> (\<forall>k. map_of (wallets p') k =
           (if k = upper code \<and> map_of (wallets p) k = None
            then Some \<lparr>wallet_currency_code = upper (upper code), balance = Fin 0\<rparr>
            else map_of (wallets p) k))"
proof (cases "map_of (wallets p) (upper code)")
  case None
  then have nk: "upper code \<notin> fst ` set (wallets p)"
    by (simp add: map_of_eq_None_iff)
  let ?w = "\<lparr>wallet_currency_code = upper (upper code), balance = Fin 0\<rparr>"
  let ?p = "p\<lparr>wallets := AList.update (upper code) ?w (wallets p)\<rparr>"
  have "get_or_create_wallet code p = Inr ?p"
    using None nk
    by (simp add: get_or_create_wallet_def get_wallet_def add_currency_def Wallet_def)
  moreover have "user_id ?p = user_id p" by simp
  moreover have "\<forall>k. map_of (wallets ?p) k =
           (if k = upper code \<and> map_of (wallets p) k = None then Some ?w else map_of (wallets p) k)"
    using None by (simp add: update_conv')
  ultimately show ?thesis by blast
next
  case (Some w)
  then have "get_or_create_wallet code p = Inr p"
    by (simp add: get_or_create_wallet_def get_wallet_def)
  moreover have "\<forall>k. map_of (wallets p) k =
           (if k = upper code \<and> map_of (wallets p) k = None
            then Some \<lparr>wallet_currency_code = upper (upper code), balance = Fin 0\<rparr>
            else map_of (wallets p) k)"
    using Some by auto
  ultimately show ?thesis by blast
qed

lemma two_wallets:
  "\<exists>p1 p2. get_or_create_wallet c1 p = Inr p1 \<and> get_or_create_wallet c2 p1 = Inr p2
     \<and> user_id p2 = user_id p
     \<and> (\<forall>k w. map_of (wallets p) k = Some w \<longrightarrow> map_of (wallets p2) k = Some w)
     \<and> (\<forall>k w'. map_of (wallets p2) k = Some w' \<longrightarrow>
           map_of (wallets p) k = Some w' \<or> (map_of (wallets p) k = None \<and> balance w' = Fin 0))
     \<and> (\<forall>c. held_balance p2 c = held_balance p c)
     \<and> get_wallet p2 c1 \<noteq> None \<and> get_wallet p2 c2 \<noteq> None"
proof -
  obtain p1 where 1: "get_or_create_wallet c1 p = Inr p1" "user_id p1 = user_id p"
    and m1: "\<And>k. map_of (wallets p1) k =
           (if k = upper c1 \<and> map_of (wallets p) k = None
            then Some \<lparr>wallet_currency_code = upper (upper c1), balance = Fin 0\<rparr>
            else map_of (wallets p) k)"
    using get_or_create_wallet_cases[of c1 p] by blast
  obtain p2 where 2: "get_or_create_wallet c2 p1 = Inr p2" "user_id p2 = user_id p1"
    and m2: "\<And>k. map_of (wallets p2) k =
           (if k = upper c2 \<and> map_of (wallets p1) k = None
            then Some \<lparr>wallet_currency_code = upper (upper c2), balance = Fin 0\<rparr>
            else map_of (wallets p1) k)"
    using get_or_create_wallet_cases[of c2 p1] by blast
  have a: "\<forall>k w. map_of (wallets p) k = Some w \<longrightarrow> map_of (wallets p2) k = Some w"
    by (simp add: m1 m2)
  have b: "\<forall>k w'. map_of (wallets p2) k = Some w' \<longrightarrow>
           map_of (wallets p) k = Some w' \<or> (map_of (wallets p) k = None \<and> balance w' = Fin 0)"
    by (auto simp: m1 m2 split: if_splits)
  have c: "\<forall>c. held_balance p2 c = held_balance p c"
    by (auto simp: held_balance_def get_wallet_def m1 m2 split: option.splits if_splits)
  have d: "get_wallet p2 c1 \<noteq> None" "get_wallet p2 c2 \<noteq> None"
    by (auto simp: get_wallet_def m1 m2)
  from 1 2 a b c d show ?thesis by auto
qed

text \<open>
  C3: with a valid amount, a known currency and a fresh rate, a buy whose base wallet
  holds less than \<open>amount * rate\<close>, and a sell whose wallet holds less than the amount,
  fail with \<open>InsufficientFundsError\<close> carrying the balance, the required amount and the
  currency. The data directory and its write log are unchanged; every wallet of the
  portfolio object is as before, and a wallet the call created is empty.
\<close>

theorem insufficient_funds_aborts:
  assumes "validate_amount ev amount = Inr a" and "get_currency code = Inr cur"
    and "get_cached_rate ev db (cur_code cur) base = Some (rate, u, True)"
  shows "(flt (held_balance (svc_portfolio svc) base) (fmul a rate) \<longrightarrow>
          (\<exists>p'. buy_currency ev code amount base (db, svc)
                  = (Inl (InsufficientFundsError (held_balance (svc_portfolio svc) base)
                            (fmul a rate) base), db, svc\<lparr>svc_portfolio := p'\<rparr>)
            \<and> (\<forall>k w. map_of (wallets (svc_portfolio svc)) k = Some w \<longrightarrow>
                       map_of (wallets p') k = Some w)
            \<and> (\<forall>k w'. map_of (wallets p') k = Some w' \<longrightarrow>
                       map_of (wallets (svc_portfolio svc)) k = Some w'
                       \<or> (map_of (wallets (svc_portfolio svc)) k = None \<and> balance w' = Fin 0))))
       \<and> (flt (held_balance (svc_portfolio svc) (cur_code cur)) a \<longrightarrow>
          (\<exists>p'. sell_currency ev code amount base (db, svc)
                  = (Inl (InsufficientFundsError (held_balance (svc_portfolio svc) (cur_code cur))
                            a (cur_code cur)), db, svc\<lparr>svc_portfolio := p'\<rparr>)
            \<and> (\<forall>k w. map_of (wallets (svc_portfolio svc)) k = Some w \<longrightarrow>
                       map_of (wallets p') k = Some w)
            \<and> (\<forall>k w'. map_of (wallets p') k = Some w' \<longrightarrow>
                       map_of (wallets (svc_portfolio svc)) k = Some w'
                       \<or> (map_of (wallets (svc_portfolio svc)) k = None \<and> balance w' = Fin 0))))"
proof (intro conjI impI)
  let ?p = "svc_portfolio svc"
  assume low: "flt (held_balance ?p base) (fmul a rate)"
  obtain p1 p2 where g: "get_or_create_wallet base ?p = Inr p1"
      "get_or_create_wallet (cur_code cur) p1 = Inr p2"
    and keep: "\<And>k w. map_of (wallets ?p) k = Some w \<Longrightarrow> map_of (wallets p2) k = Some w"
    and new: "\<And>k w'. map_of (wallets p2) k = Some w' \<Longrightarrow>
           map_of (wallets ?p) k = Some w' \<or> (map_of (wallets ?p) k = None \<and> balance w' = Fin 0)"
    and hb: "held_balance p2 base = held_balance ?p base"
    and ex: "get_wallet p2 base \<noteq> None"
    using two_wallets[of base ?p "cur_code cur"] by blast
  from ex hb have bal: "balance_of p2 base = Inr (held_balance ?p base)"
    by (auto simp: balance_of_def held_balance_def split: option.splits)
  have "prepare_transaction ev db ?p code amount base ''buy''
          = (Inl (InsufficientFundsError (held_balance ?p base) (fmul a rate) base), p2)"
    using low by (simp add: prepare_transaction_def assms g bal)
  then have "buy_currency ev code amount base (db, svc)
          = (Inl (InsufficientFundsError (held_balance ?p base) (fmul a rate) base), db,
             svc\<lparr>svc_portfolio := p2\<rparr>)"
    by (simp add: buy_currency_def)
  with keep new show "\<exists>p'. buy_currency ev code amount base (db, svc)
                  = (Inl (InsufficientFundsError (held_balance ?p base)
                            (fmul a rate) base), db, svc\<lparr>svc_portfolio := p'\<rparr>)
            \<and> (\<forall>k w. map_of (wallets ?p) k = Some w \<longrightarrow> map_of (wallets p') k = Some w)
            \<and> (\<forall>k w'. map_of (wallets p') k = Some w' \<longrightarrow>
                       map_of (wallets ?p) k = Some w'
                       \<or> (map_of (wallets ?p) k = None \<and> balance w' = Fin 0))"
    by blast
next
  let ?p = "svc_portfolio svc"
  assume low: "flt (held_balance ?p (cur_code cur)) a"
  obtain p1 p2 where g: "get_or_create_wallet (cur_code cur) ?p = Inr p1"
      "get_or_create_wallet base p1 = Inr p2"
    and keep: "\<And>k w. map_of (wallets ?p) k = Some w \<Longrightarrow> map_of (wallets p2) k = Some w"
    and new: "\<And>k w'. map_of (wallets p2) k = Some w' \<Longrightarrow>
           map_of (wallets ?p) k = Some w' \<or> (map_of (wallets ?p) k = None \<and> balance w' = Fin 0)"
    and hb: "held_balance p2 (cur_code cur) = held_balance ?p (cur_code cur)"
    and ex: "get_wallet p2 (cur_code cur) \<noteq> None"
    using two_wallets[of "cur_code cur" ?p base] by blast
  from ex hb have bal: "balance_of p2 (cur_code cur) = Inr (held_balance ?p (cur_code cur))"
    by (auto simp: balance_of_def held_balance_def split: option.splits)
  have "prepare_transaction ev db ?p code amount base ''sell''
          = (Inl (InsufficientFundsError (held_balance ?p (cur_code cur)) a (cur_code cur)), p2)"
    using low by (simp add: prepare_transaction_def assms g bal)
  then have "sell_currency ev code amount base (db, svc)
          = (Inl (InsufficientFundsError (held_balance ?p (cur_code cur)) a (cur_code cur)), db,
             svc\<lparr>svc_portfolio := p2\<rparr>)"
    by (simp add: sell_currency_def)
  with keep new show "\<exists>p'. sell_currency ev code amount base (db, svc)
                  = (Inl (InsufficientFundsError (held_balance ?p (cur_code cur))
                            a (cur_code cur)), db, svc\<lparr>svc_portfolio := p'\<rparr>)
            \<and> (\<forall>k w. map_of (wallets ?p) k = Some w \<longrightarrow> map_of (wallets p') k = Some w)
            \<and> (\<forall>k w'. map_of (wallets p') k = Some w' \<longrightarrow>
                       map_of (wallets ?p) k = Some w'
                       \<or> (map_of (wallets ?p) k = None \<and> balance w' = Fin 0))"
    by blast
qed

theorem insufficient_funds_aborts_witness:
  "validate_amount example_env ''1'' = Inr (Fin 1)
   \<and> validate_amount example_env ''0.01'' = Inr (Fin (5764607523034235 / 576460752303423488))
   \<and> get_currency ''BTC'' = Inr \<lparr>cur_code = ''BTC'', cur_name = ''Bitcoin'', cur_kind = CryptoCurrency\<rparr>
   \<and> get_cached_rate example_env (trading_db (Fin 60000)) ''BTC'' ''USD''
       = Some (Fin 60000, Naive 0, True)
   \<and> flt (held_balance (svc_portfolio alice_service) ''USD'') (fmul (Fin 1) (Fin 60000))
   \<and> flt (held_balance (svc_portfolio alice_service) ''BTC'')
         (Fin (5764607523034235 / 576460752303423488))
   \<and> fst (buy_currency example_env ''BTC'' ''1'' ''USD'' (trading_db (Fin 60000), alice_service))
       = Inl (InsufficientFundsError (Fin 1000) (Fin 60000) ''USD'')
   \<and> fst (snd (buy_currency example_env ''BTC'' ''1'' ''USD''
         (trading_db (Fin 60000), alice_service))) = trading_db (Fin 60000)
   \<and> fst (sell_currency example_env ''BTC'' ''0.01'' ''USD'' (trading_db (Fin 60000), alice_service))
       = Inl (InsufficientFundsError (Fin 0) (Fin (5764607523034235 / 576460752303423488)) ''BTC'')
   \<and> fst (snd (sell_currency example_env ''BTC'' ''0.01'' ''USD''
         (trading_db (Fin 60000), alice_service))) = trading_db (Fin 60000)"
proof -
  let ?db = "trading_db (Fin 60000)"
  let ?a = "Fin (5764607523034235 / 576460752303423488)"
  have p: "svc_portfolio alice_service = alice_portfolio"
    by (simp add: alice_service_def)
  have 1: "flt (held_balance (svc_portfolio alice_service) ''USD'') (fmul (Fin 1) (Fin 60000))"
    by (simp add: p alice_wallets mul_1_60000 del: fmul.simps)
  have 2: "flt (held_balance (svc_portfolio alice_service) ''BTC'') ?a"
    by (simp add: p alice_wallets)
  have r: "get_cached_rate example_env ?db
             (cur_code \<lparr>cur_code = ''BTC'', cur_name = ''Bitcoin'', cur_kind = CryptoCurrency\<rparr>)
             ''USD'' = Some (Fin 60000, Naive 0, True)"
    by (simp add: rate_fresh)
  note b = insufficient_funds_aborts [OF val_fresh(2) cur_BTC r, where svc = alice_service]
  note s = insufficient_funds_aborts [OF val_fresh(1) cur_BTC r, where svc = alice_service]
  from b 1 have B: "fst (buy_currency example_env ''BTC'' ''1'' ''USD'' (?db, alice_service))
       = Inl (InsufficientFundsError (Fin 1000) (Fin 60000) ''USD'')
     \<and> fst (snd (buy_currency example_env ''BTC'' ''1'' ''USD'' (?db, alice_service))) = ?db"
    by (auto simp: p alice_wallets mul_1_60000 simp del: fmul.simps)
  from s 2 have S: "fst (sell_currency example_env ''BTC'' ''0.01'' ''USD'' (?db, alice_service))
       = Inl (InsufficientFundsError (Fin 0) ?a ''BTC'')
     \<and> fst (snd (sell_currency example_env ''BTC'' ''0.01'' ''USD'' (?db, alice_service))) = ?db"
    by (auto simp: p alice_wallets)
  from val_fresh cur_BTC rate_fresh 1 2 B S show ?thesis by blast
qed

subsection \<open>The buy scenario\<close>

text \<open>
  C2 at its own scenario (USD 1000.00, a fresh \<open>BTC_USD\<close> rate of 60000.0, buying 0.01
  BTC): the base wallet is debited to 400.00, the target wallet is credited 0.01 and the
  portfolio is saved, and then \<open>buy_currency\<close> raises \<open>AttributeError\<close> while building
  its result, so no transaction result is returned.
\<close>

theorem buy_scenario_raises:
  "buy_currency example_env ''BTC'' ''0.01'' ''USD'' (trading_db (Fin 60000), alice_service)
     = (Inl (AttributeError (No_attribute ''str'' ''code'')),
        (trading_db (Fin 60000))
          \<lparr>portfolios_json := Stored [to_dict (alice_with_btc (Fin 400)
               (Fin (5764607523034235 / 576460752303423488)))],
           writes := [''portfolios.json'']\<rparr>,
        alice_service\<lparr>svc_portfolio := alice_with_btc (Fin 400)
               (Fin (5764607523034235 / 576460752303423488))\<rparr>)"
proof -
  let ?a = "Fin (5764607523034235 / 576460752303423488)"
  have w: "on_wallet ''withdraw'' ''USD'' (withdraw (fmul ?a (Fin 60000)))
             (alice_with_btc (Fin 1000) (Fin 0)) = Inr (alice_with_btc (Fin 400) (Fin 0))"
    by (simp add: alice_with_btc_update withdraw_def mul_001_60000 sub_1000_600
          del: fmul.simps) (simp_all add: alice_with_btc_def)
  have d: "on_wallet ''deposit'' ''BTC'' (deposit ?a) (alice_with_btc (Fin 400) (Fin 0))
             = Inr (alice_with_btc (Fin 400) ?a)"
    by (simp add: alice_with_btc_update deposit_def add_0_001
          del: fadd.simps) (simp_all add: alice_with_btc_def)
  have s: "save_portfolio \<lparr>svc_user_id = 1, svc_portfolio = alice_with_btc (Fin 400) ?a\<rparr>
             (trading_db (Fin 60000))
           = (trading_db (Fin 60000))
               \<lparr>portfolios_json := Stored [to_dict (alice_with_btc (Fin 400) ?a)],
                writes := [''portfolios.json'']\<rparr>"
    by (simp add: save_portfolio_def trading_db_def load_portfolios_def
          load_json_def to_dict_def alice_portfolio_def alice_with_btc_def save_portfolios_def)
  show ?thesis
    by (simp add: buy_currency_def alice_service_def prepare_buy_scenario w d str_code_def
          s del: fmul.simps)
qed

subsection \<open>Wallet balances\<close>

text \<open>
  What does hold: a non-positive amount and a withdrawal above the balance are rejected,
  and operations with finite amounts keep a balance that is \<open>\<ge> 0\<close> that way, rounding
  included.
\<close>

lemma pow2_pos: "0 < pow2 k"
  by (simp add: pow2_def)

lemma round_half_even_nonneg: "0 \<le> z \<Longrightarrow> 0 \<le> round_half_even z"
  by (auto simp: round_half_even_def half_even_def)

lemma round64_nonneg: "0 \<le> q \<Longrightarrow> fle (Fin 0) (round64 q)"
proof -
  assume q: "0 \<le> q"
  have "0 \<le> q / ulp_of q"
    using q pow2_pos[of "max (ilog2 q) (- 1022) - 52"] by (simp add: ulp_of_def)
  then have "0 \<le> round_to (ulp_of q) q"
    using pow2_pos[of "max (ilog2 q) (- 1022) - 52"]
    by (simp add: round_to_def ulp_of_def round_half_even_nonneg)
  then show ?thesis
    using q by (simp add: round64_def overflow_check_def)
qed

lemma deposit_keeps_nonneg:
  assumes "fle (Fin 0) (balance w)" and "is_finite amount" and "deposit amount w = Inr w'"
  shows "fle (Fin 0) (balance w')"
proof -
  from assms(2) obtain a where a: "amount = Fin a" by (cases amount) (auto simp: is_finite_def)
  from assms(3) have pos: "0 < a" and w': "w' = w\<lparr>balance := fadd (balance w) (Fin a)\<rparr>"
    by (auto simp: deposit_def a split: if_splits)
  show ?thesis
  proof (cases "balance w")
    case (Fin b)
    with assms(1) have "0 \<le> b" by simp
    with pos have "0 \<le> b + a" by simp
    then show ?thesis by (simp add: w' Fin round64_nonneg)
  qed (use assms(1) in \<open>simp_all add: w'\<close>)
qed

lemma withdraw_keeps_nonneg:
  assumes "fle (Fin 0) (balance w)" and "is_finite amount" and "withdraw amount w = Inr w'"
  shows "fle (Fin 0) (balance w')"
proof -
  from assms(2) obtain a where a: "amount = Fin a" by (cases amount) (auto simp: is_finite_def)
  from assms(3) have pos: "0 < a" and enough: "\<not> flt (balance w) (Fin a)"
    and w': "w' = w\<lparr>balance := fsub (balance w) (Fin a)\<rparr>"
    by (auto simp: withdraw_def a split: if_splits)
  show ?thesis
  proof (cases "balance w")
    case (Fin b)
    with enough have "0 \<le> b - a" by simp
    then have "fle (Fin 0) (round64 (b - a))" by (rule round64_nonneg)
    then show ?thesis by (simp add: w' Fin fsub_def)
  qed (use assms(1) in \<open>simp_all add: w' fsub_def\<close>)
qed

lemma apply_op_keeps_nonneg:
  "fle (Fin 0) (balance w) \<Longrightarrow> is_finite (op_amount op) \<Longrightarrow> fle (Fin 0) (balance (apply_op w op))"
  by (cases op) (auto split: sum.splits dest: deposit_keeps_nonneg withdraw_keeps_nonneg)

lemma finite_ops_keep_balance_nonneg:
  "fle (Fin 0) (balance w) \<Longrightarrow> list_all (\<lambda>op. is_finite (op_amount op)) ops
     \<Longrightarrow> fle (Fin 0) (balance (run_ops w ops))"
  unfolding run_ops_def
  by (induction ops arbitrary: w) (simp_all add: apply_op_keeps_nonneg)

lemma wallet_rejections:
  "fle amount (Fin 0) \<Longrightarrow> deposit amount w = Inl (ValueError Deposit_not_positive)"
  "fle amount (Fin 0) \<Longrightarrow> withdraw amount w = Inl (ValueError Withdrawal_not_positive)"
  "\<not> fle amount (Fin 0) \<Longrightarrow> flt (balance w) amount \<Longrightarrow>
     withdraw amount w = Inl (InsufficientFundsError (balance w) amount (wallet_currency_code w))"
  by (simp_all add: deposit_def withdraw_def)

text \<open>
  C4 at \<open>nan\<close>: no comparison with \<open>nan\<close> holds, so neither guard of \<open>deposit\<close> and
  \<open>withdraw\<close> rejects it, and the balance becomes \<open>nan\<close>, which is not \<open>\<ge> 0\<close>.
\<close>

theorem nan_breaks_balance_invariant:
  "deposit NaN \<lparr>wallet_currency_code = ''USD'', balance = Fin 100\<rparr>
     = Inr \<lparr>wallet_currency_code = ''USD'', balance = NaN\<rparr>
   \<and> withdraw NaN \<lparr>wallet_currency_code = ''USD'', balance = Fin 100\<rparr>
     = Inr \<lparr>wallet_currency_code = ''USD'', balance = NaN\<rparr>
   \<and> \<not> fle (Fin 0) NaN"
  by (simp add: deposit_def withdraw_def fsub_def)

text \<open>
  The command surface reaches it: \<open>validate_amount\<close> accepts the string \<open>nan\<close>, and
  the buy then stores \<open>nan\<close> as both balances.
\<close>

lemma val_nan: "validate_amount example_env ''nan'' = Inr NaN"
  by (simp add: validate_amount_def ex_defs)

lemma buy_nan_stores_nan:
  "buy_currency example_env ''BTC'' ''nan'' ''USD'' (trading_db (Fin 60000), alice_service)
     = (Inl (AttributeError (No_attribute ''str'' ''code'')),
        (trading_db (Fin 60000))
          \<lparr>portfolios_json := Stored [to_dict (alice_with_btc NaN NaN)],
           writes := [''portfolios.json'']\<rparr>,
        alice_service\<lparr>svc_portfolio := alice_with_btc NaN NaN\<rparr>)"
proof -
  have p: "prepare_transaction example_env (trading_db (Fin 60000)) alice_portfolio ''BTC'' ''nan''
             ''USD'' ''buy''
           = (Inr (NaN, Fin 60000, ''USD'', ''BTC'', True), alice_with_btc (Fin 1000) (Fin 0))"
    by (simp add: prepare_transaction_def val_nan cur_BTC rate_fresh prepare_creates_btc
        alice_with_btc_wallets)
  have w: "on_wallet ''withdraw'' ''USD'' (withdraw NaN) (alice_with_btc (Fin 1000) (Fin 0))
             = Inr (alice_with_btc NaN (Fin 0))"
    by (simp add: alice_with_btc_update withdraw_def fsub_def) (simp_all add: alice_with_btc_def)
  have d: "on_wallet ''deposit'' ''BTC'' (deposit NaN) (alice_with_btc NaN (Fin 0))
             = Inr (alice_with_btc NaN NaN)"
    by (simp add: alice_with_btc_update deposit_def) (simp_all add: alice_with_btc_def)
  have s: "save_portfolio \<lparr>svc_user_id = 1, svc_portfolio = alice_with_btc NaN NaN\<rparr>
             (trading_db (Fin 60000))
           = (trading_db (Fin 60000))
               \<lparr>portfolios_json := Stored [to_dict (alice_with_btc NaN NaN)],
                writes := [''portfolios.json'']\<rparr>"
    by (simp add: save_portfolio_def trading_db_def load_portfolios_def
          load_json_def to_dict_def alice_portfolio_def alice_with_btc_def save_portfolios_def)
  show ?thesis
    by (simp add: buy_currency_def alice_service_def p w d str_code_def s)
qed

subsection \<open>The binary64 model\<close>

text \<open>
  \<open>ilog2\<close> is the binary exponent, and a finite result of \<open>round64\<close> lies within half
  a unit in the last place of the exact value.
\<close>

lemma bit_length_bounds:
  "0 < n \<Longrightarrow> 1 \<le> bit_length n \<and> 2 ^ nat (bit_length n - 1) \<le> n \<and> n < 2 ^ nat (bit_length n)"
proof (induction n rule: bit_length.induct)
  case (1 n)
  show ?case
  proof (cases "n div 2 = 0")
    case True
    with "1.prems" have n1: "n = 1" by presburger
    have "bit_length 1 = 1"
      by (simp add: bit_length.simps[of 1] bit_length.simps[of 0])
    with n1 show ?thesis by simp
  next
    case False
    with "1.prems" have pos: "0 < n div 2" by presburger
    from "1.IH"[OF _ pos] "1.prems"
    have ih: "1 \<le> bit_length (n div 2)"
        "2 ^ nat (bit_length (n div 2) - 1) \<le> n div 2"
        "n div 2 < 2 ^ nat (bit_length (n div 2))"
      by simp_all
    let ?k = "bit_length (n div 2)"
    have bl: "bit_length n = 1 + ?k"
      using "1.prems" by (simp add: bit_length.simps[of n])
    have nk: "nat (1 + ?k - 1) = Suc (nat (?k - 1))" "nat (1 + ?k) = Suc (nat ?k)"
      using ih(1) by simp_all
    have lo: "2 * 2 ^ nat (?k - 1) \<le> n"
      using ih(2) by presburger
    have hi: "n < 2 * 2 ^ nat ?k"
      using ih(3) by presburger
    have "nat ?k = Suc (nat (?k - 1))" using ih(1) by simp
    then have pk: "(2::int) ^ nat ?k = 2 * 2 ^ nat (?k - 1)" by simp
    show ?thesis
      using ih(1) lo hi pk by (simp add: bl nk)
  qed
qed


lemma bit_length_nonneg: "0 \<le> bit_length n"
  using bit_length_bounds[of n] by (cases "0 < n") (simp_all add: bit_length.simps[of n])

lemma pow2_neg: "1 \<le> k \<Longrightarrow> pow2 (- k) = 1 / 2 ^ nat k"
  by (simp add: pow2_def)

lemma pow2_neg_succ: "1 \<le> k \<Longrightarrow> pow2 (- k + 1) = 1 / 2 ^ nat (k - 1)"
proof (cases "k = 1")
  case True
  then show ?thesis by (simp add: pow2_def)
next
  case False
  assume "1 \<le> k"
  with False have "\<not> 0 \<le> - k + 1" and "nat (- (- k + 1)) = nat (k - 1)" by simp_all
  then show ?thesis by (simp only: pow2_def if_False)
qed

lemma pow2_nonneg: "0 \<le> k \<Longrightarrow> pow2 k = 2 ^ nat k"
  by (simp add: pow2_def)

lemma ilog2_bounds:
  assumes "0 < q"
  shows "pow2 (ilog2 q) \<le> q \<and> q < pow2 (ilog2 q + 1)"
proof (cases "1 \<le> q")
  case True
  let ?n = "\<lfloor>q\<rfloor>"
  have n: "0 < ?n" using True by simp
  note b = bit_length_bounds[OF n]
  define k where "k = bit_length ?n"
  have k1: "1 \<le> k" and b1: "2 ^ nat (k - 1) \<le> ?n" and b2: "?n < 2 ^ nat k"
    using b by (simp_all add: k_def)
  have e: "ilog2 q = k - 1" using True by (simp add: ilog2_def k_def)
  have lo: "(2::rat) ^ nat (k - 1) \<le> q"
  proof -
    have "rat_of_int (2 ^ nat (k - 1)) \<le> rat_of_int ?n" using b1 by (simp only: of_int_le_iff)
    also have "\<dots> \<le> q" using floor_correct[of q] by simp
    finally show ?thesis by simp
  qed
  have hi: "q < (2::rat) ^ nat k"
  proof -
    have "?n + 1 \<le> 2 ^ nat k" using b2 by simp
    then have "rat_of_int (?n + 1) \<le> rat_of_int (2 ^ nat k)" by (simp only: of_int_le_iff)
    moreover have "q < rat_of_int (?n + 1)" using floor_correct[of q] by simp
    ultimately have "q < rat_of_int (2 ^ nat k)" by (rule less_le_trans[rotated])
    then show ?thesis by simp
  qed
  have "pow2 (k - 1) = 2 ^ nat (k - 1)" "pow2 (k - 1 + 1) = 2 ^ nat k"
    using k1 by (simp_all add: pow2_nonneg)
  with lo hi show ?thesis by (simp only: e)
next
  case False
  with assms have q1: "q < 1" by simp
  let ?r = "1 / q"
  have r1: "1 < ?r" using assms q1 by simp
  let ?m = "\<lceil>?r\<rceil> - 1"
  have m: "0 < ?m" using r1 by (simp add: less_ceiling_iff)
  note b = bit_length_bounds[OF m]
  define k where "k = bit_length ?m"
  have k1: "1 \<le> k" and b1: "2 ^ nat (k - 1) \<le> ?m" and b2: "?m < 2 ^ nat k"
    using b by (simp_all add: k_def)
  have e: "ilog2 q = - k" using False by (simp add: ilog2_def k_def)
  define P :: rat where "P = 2 ^ nat k"
  define L :: rat where "L = 2 ^ nat (k - 1)"
  have P0: "0 < P" and L0: "0 < L" by (simp_all add: P_def L_def)
  have mr: "rat_of_int ?m < ?r" using ceiling_correct[of ?r] by simp
  have rm: "?r \<le> rat_of_int (?m + 1)" using ceiling_correct[of ?r] by simp
  have lo: "L < ?r"
  proof -
    have "rat_of_int (2 ^ nat (k - 1)) \<le> rat_of_int ?m" using b1 by (simp only: of_int_le_iff)
    from this mr have "rat_of_int (2 ^ nat (k - 1)) < ?r" by (rule le_less_trans)
    moreover have "rat_of_int (2 ^ nat (k - 1)) = L" by (simp add: L_def)
    ultimately show ?thesis by (simp only:)
  qed
  have hi: "?r \<le> P"
  proof -
    have "?m + 1 \<le> 2 ^ nat k" using b2 by simp
    then have "rat_of_int (?m + 1) \<le> rat_of_int (2 ^ nat k)" by (simp only: of_int_le_iff)
    with rm have "?r \<le> rat_of_int (2 ^ nat k)" by (rule order_trans)
    also have "rat_of_int (2 ^ nat k) = P" by (simp add: P_def)
    finally show ?thesis .
  qed
  have A: "1 / P \<le> q"
  proof -
    from hi assms have "1 \<le> P * q" by (simp only: pos_divide_le_eq)
    then have "1 \<le> q * P" by (simp only: mult.commute)
    with P0 show ?thesis by (simp only: pos_divide_le_eq)
  qed
  have B: "q < 1 / L"
  proof -
    from lo assms have "L * q < 1" by (simp only: pos_less_divide_eq)
    then have "q * L < 1" by (simp only: mult.commute)
    with L0 show ?thesis by (simp only: pos_less_divide_eq)
  qed
  have "pow2 (- k) = 1 / P" "pow2 (- k + 1) = 1 / L"
    using k1 by (simp_all only: pow2_neg pow2_neg_succ P_def L_def)
  with A B show ?thesis by (simp only: e)
qed


lemma round_half_even_close: "\<bar>rat_of_int (round_half_even z) - z\<bar> \<le> 1 / 2"
proof -
  define d where "d = z - rat_of_int \<lfloor>z\<rfloor>"
  have d: "0 \<le> d" "d < 1" using floor_correct[of z] by (simp_all add: d_def)
  have "(d \<le> 1 / 2 \<and> round_half_even z = \<lfloor>z\<rfloor>)
      \<or> (1 / 2 \<le> d \<and> round_half_even z = \<lfloor>z\<rfloor> + 1)"
    unfolding round_half_even_def half_even_def d_def[symmetric] by auto
  then show ?thesis
  proof (elim disjE conjE)
    assume h: "d \<le> 1 / 2" and r: "round_half_even z = \<lfloor>z\<rfloor>"
    have "rat_of_int (round_half_even z) - z = - d" by (simp add: r d_def)
    with h d show ?thesis by simp
  next
    assume h: "1 / 2 \<le> d" and r: "round_half_even z = \<lfloor>z\<rfloor> + 1"
    have "rat_of_int (round_half_even z) - z = 1 - d" by (simp add: r d_def)
    with h d show ?thesis by simp
  qed
qed

lemma round_to_close:
  assumes "0 < u"
  shows "\<bar>round_to u a - a\<bar> \<le> u / 2"
proof -
  have "round_to u a - a = (rat_of_int (round_half_even (a / u)) - a / u) * u"
    using assms by (simp add: round_to_def algebra_simps)
  then have "\<bar>round_to u a - a\<bar> = \<bar>rat_of_int (round_half_even (a / u)) - a / u\<bar> * u"
    using assms by (simp add: abs_mult)
  also have "\<dots> \<le> (1 / 2) * u"
    using round_half_even_close[of "a / u"] assms by (intro mult_right_mono) simp_all
  finally show ?thesis by simp
qed

lemma round64_close:
  assumes "round64 q = Fin v"
  shows "\<bar>v - q\<bar> \<le> ulp_of \<bar>q\<bar> / 2"
proof (cases "q = 0")
  case True
  with assms have "v = 0" by (simp add: round64_def)
  with True show ?thesis using pow2_pos[of "max (ilog2 0) (- 1022) - 52"]
    by (simp add: ulp_of_def)
next
  case False
  have u: "0 < ulp_of \<bar>q\<bar>" by (simp add: ulp_of_def pow2_pos)
  let ?w = "round_to (ulp_of \<bar>q\<bar>) \<bar>q\<bar>"
  from assms False have v: "v = (if q < 0 then - ?w else ?w)"
    by (auto simp: round64_def overflow_check_def split: if_splits)
  have c: "\<bar>?w - \<bar>q\<bar>\<bar> \<le> ulp_of \<bar>q\<bar> / 2" using u by (rule round_to_close)
  show ?thesis
  proof (cases "q < 0")
    case True
    then have "v - q = - (?w - \<bar>q\<bar>)" by (simp add: v)
    then have "\<bar>v - q\<bar> = \<bar>?w - \<bar>q\<bar>\<bar>" by (simp only: abs_minus_cancel)
    with c show ?thesis by simp
  next
    case False
    then have "v - q = ?w - \<bar>q\<bar>" by (simp add: v)
    with c show ?thesis by simp
  qed
qed

subsection \<open>Buy, then sell\<close>

text \<open>
  The claim of C6 fails where an intermediate balance is rounded: a holder of
  \<open>float("0.1")\<close> BTC who buys and then sells \<open>float("0.2")\<close> BTC at the same rate ends
  with 0.10000000000000003 BTC, because 0.1 + 0.2 is rounded to 0.30000000000000004.
\<close>

theorem round_trip_changes_balance:
  "fst (sell_currency example_env ''BTC'' ''0.2'' ''USD''
          (snd (buy_currency example_env ''BTC'' ''0.2'' ''USD'' (holding_db, holder_service))))
     = Inr \<lparr>sr_currency = ''BTC'', sr_amount = Fin (3602879701896397 / 18014398509481984),
             sr_rate = Fin 60000, sr_proceeds = Fin 12000, sr_base_currency = ''USD'',
             sr_new_balance = Fin (1801439850948199 / 18014398509481984),
             sr_base_balance = Fin 20000, sr_rate_fresh = True\<rparr>
   \<and> held_balance (svc_portfolio holder_service) ''BTC''
       = Fin (3602879701896397 / 36028797018963968)
   \<and> held_balance (svc_portfolio (snd (snd (sell_currency example_env ''BTC'' ''0.2'' ''USD''
          (snd (buy_currency example_env ''BTC'' ''0.2'' ''USD'' (holding_db, holder_service)))))))
        ''BTC''
       = Fin (1801439850948199 / 18014398509481984)
   \<and> Fin (1801439850948199 / 18014398509481984) \<noteq> Fin (3602879701896397 / 36028797018963968)"
  by (simp add: buy_02 sell_02 alice_with_btc_wallets)
     (simp_all add: holder_service_def alice_with_btc_wallets)

lemma registry_code_upper:
  assumes "get_currency code = Inr cur"
  shows "upper (cur_code cur) = cur_code cur"
proof -
  from assms have "map_of currencies (upper code) = Some cur"
    by (simp add: get_currency_def split: option.splits)
  then have "(upper code, cur) \<in> set currencies"
    by (rule map_of_SomeD)
  then show ?thesis
    by (auto simp: currencies_def upper_def upper_char_def)
qed

lemma load_rates_save_portfolio:
  "load_rates_cache (save_portfolio svc db) = load_rates_cache db"
  by (simp add: save_portfolio_def save_portfolios_def load_rates_cache_def split: option.splits)

lemma get_cached_rate_save_portfolio:
  "get_cached_rate ev (save_portfolio svc db) f t = get_cached_rate ev db f t"
  by (simp add: get_cached_rate_def load_rates_save_portfolio)

lemma on_wallet_ok:
  assumes "get_wallet p k = Some w" and "f w = Inr w'"
  shows "\<exists>p'. on_wallet m k f p = Inr p' \<and> user_id p' = user_id p
           \<and> (\<forall>k'. get_wallet p' k' = (if upper k' = upper k then Some w' else get_wallet p k'))"
  using assms by (simp add: on_wallet_def get_wallet_def update_conv')

lemma replace_first_mem: "replace_first P y xs = Some ys \<Longrightarrow> y \<in> set ys"
  by (induction xs arbitrary: ys) (auto split: if_splits)

lemma save_portfolio_stores:
  "to_dict (svc_portfolio svc) \<in> set (load_portfolios (save_portfolio svc db))"
  by (auto simp: save_portfolio_def save_portfolios_def load_portfolios_def load_json_def
        split: option.splits dest: replace_first_mem)

lemma get_or_create_existing:
  "get_wallet p c = Some w \<Longrightarrow> get_or_create_wallet c p = Inr p"
  by (simp add: get_or_create_wallet_def)

lemma held_Some: "get_wallet p c = Some w \<Longrightarrow> held_balance p c = balance w"
  by (simp add: held_balance_def)

lemma balance_of_Some: "get_wallet p c = Some w \<Longrightarrow> balance_of p c = Inr (balance w)"
  by (simp add: balance_of_def)


lemma validate_positive:
  "validate_amount ev amount = Inr (Fin a) \<Longrightarrow> 0 < a"
  by (auto simp: validate_amount_def split: option.splits if_splits)

text \<open>
  C6, as the code has it: with a valid amount, a known currency other than the base, a
  fresh rate, a positive finite cost \<open>amount * rate\<close> and enough base funds, a buy
  followed by a sell of the same amount at the same cached rate brings both wallets back
  to their balances whenever the two intermediate balances, \<open>base - cost\<close> and
  \<open>X + amount\<close>, are binary64 values and so are computed without rounding. The sell
  reports the restored balances, and the restored portfolio is what is stored.
\<close>

theorem buy_then_sell_round_trip:
  assumes va: "validate_amount ev amount = Inr (Fin a)"
    and cu: "get_currency code = Inr cur"
    and ra: "get_cached_rate ev db (cur_code cur) base = Some (Fin r, u, True)"
    and ne: "upper base \<noteq> cur_code cur"
    and hb: "held_balance (svc_portfolio svc) base = Fin b"
    and hx: "held_balance (svc_portfolio svc) (cur_code cur) = Fin x"
    and x0: "0 \<le> x"
    and co: "fmul (Fin a) (Fin r) = Fin c"
    and c0: "0 < c"
    and cb: "c \<le> b"
    and e1: "round64 (b - c) = Fin (b - c)"
    and e2: "round64 (x + a) = Fin (x + a)"
    and r1: "round64 b = Fin b"
    and r2: "round64 x = Fin x"
  shows "\<exists>err db1 svc1 res db2 svc2.
           buy_currency ev code amount base (db, svc) = (err, db1, svc1)
         \<and> held_balance (svc_portfolio svc1) base = Fin (b - c)
         \<and> held_balance (svc_portfolio svc1) (cur_code cur) = Fin (x + a)
         \<and> sell_currency ev code amount base (db1, svc1) = (Inr res, db2, svc2)
         \<and> held_balance (svc_portfolio svc2) base = Fin b
         \<and> held_balance (svc_portfolio svc2) (cur_code cur) = Fin x
         \<and> sr_base_balance res = Fin b \<and> sr_new_balance res = Fin x
         \<and> to_dict (svc_portfolio svc2) \<in> set (load_portfolios db2)"
proof -
  let ?K = "cur_code cur"
  let ?p = "svc_portfolio svc"
  have uK: "upper ?K = ?K" using cu by (rule registry_code_upper)
  have a0: "0 < a" using va by (rule validate_positive)
  obtain p1 p2 where g: "get_or_create_wallet base ?p = Inr p1" "get_or_create_wallet ?K p1 = Inr p2"
    and hh: "\<forall>c. held_balance p2 c = held_balance ?p c"
    and ex: "get_wallet p2 base \<noteq> None" "get_wallet p2 ?K \<noteq> None"
    using two_wallets[of base ?p ?K] by blast
  from ex obtain wb wx where w2: "get_wallet p2 base = Some wb" "get_wallet p2 ?K = Some wx"
    by auto
  have bb: "balance wb = Fin b" using held_Some[OF w2(1)] hh hb by simp
  have bx: "balance wx = Fin x" using held_Some[OF w2(2)] hh hx by simp
  have prep: "prepare_transaction ev db ?p code amount base ''buy''
                = (Inr (Fin a, Fin r, base, ?K, True), p2)"
    using cb by (simp add: prepare_transaction_def va cu ra g balance_of_Some[OF w2(1)] bb co
        del: fmul.simps)
  have wd: "withdraw (Fin c) wb = Inr (wb\<lparr>balance := Fin (b - c)\<rparr>)"
    using c0 cb by (simp add: withdraw_def bb fsub_def e1)
  obtain p3 where p3: "on_wallet ''withdraw'' base (withdraw (Fin c)) p2 = Inr p3"
    and g3: "\<forall>k'. get_wallet p3 k' = (if upper k' = upper base then Some (wb\<lparr>balance := Fin (b - c)\<rparr>)
                                         else get_wallet p2 k')"
    using on_wallet_ok[where f = "withdraw (Fin c)", OF w2(1) wd] by blast
  have w3: "get_wallet p3 ?K = Some wx" "get_wallet p3 base = Some (wb\<lparr>balance := Fin (b - c)\<rparr>)"
    using g3 uK ne w2 by auto
  have dp: "deposit (Fin a) wx = Inr (wx\<lparr>balance := Fin (x + a)\<rparr>)"
    using a0 by (simp add: deposit_def bx e2)
  obtain p4 where p4: "on_wallet ''deposit'' ?K (deposit (Fin a)) p3 = Inr p4"
    and g4: "\<forall>k'. get_wallet p4 k' = (if upper k' = upper ?K then Some (wx\<lparr>balance := Fin (x + a)\<rparr>)
                                         else get_wallet p3 k')"
    using on_wallet_ok[where f = "deposit (Fin a)", OF w3(1) dp] by blast
  have w4: "get_wallet p4 ?K = Some (wx\<lparr>balance := Fin (x + a)\<rparr>)"
      "get_wallet p4 base = Some (wb\<lparr>balance := Fin (b - c)\<rparr>)"
    using g4 uK ne w3 by auto
  let ?svc1 = "svc\<lparr>svc_portfolio := p4\<rparr>"
  let ?db1 = "save_portfolio ?svc1 db"
  have buy: "buy_currency ev code amount base (db, svc)
               = (Inl (AttributeError (No_attribute ''str'' ''code'')), ?db1, ?svc1)"
    by (simp add: buy_currency_def prep co p3 p4 str_code_def del: fmul.simps)
  have h1: "held_balance (svc_portfolio ?svc1) base = Fin (b - c)"
      "held_balance (svc_portfolio ?svc1) ?K = Fin (x + a)"
    using held_Some[OF w4(1)] held_Some[OF w4(2)] by simp_all
  have ra1: "get_cached_rate ev ?db1 ?K base = Some (Fin r, u, True)"
    by (simp add: get_cached_rate_save_portfolio ra)
  have prep2: "prepare_transaction ev ?db1 p4 code amount base ''sell''
                = (Inr (Fin a, Fin r, ?K, base, True), p4)"
    using x0 by (simp add: prepare_transaction_def va cu ra1 get_or_create_existing[OF w4(1)]
        get_or_create_existing[OF w4(2)] balance_of_Some[OF w4(1)] del: fmul.simps)
  have wd2: "withdraw (Fin a) (wx\<lparr>balance := Fin (x + a)\<rparr>) = Inr (wx\<lparr>balance := Fin x\<rparr>)"
    using a0 x0 by (simp add: withdraw_def fsub_def r2)
  obtain p5 where p5: "on_wallet ''withdraw'' ?K (withdraw (Fin a)) p4 = Inr p5"
    and g5: "\<forall>k'. get_wallet p5 k' = (if upper k' = upper ?K then Some (wx\<lparr>balance := Fin x\<rparr>)
                                         else get_wallet p4 k')"
    using on_wallet_ok[where f = "withdraw (Fin a)", OF w4(1) wd2] by blast
  have w5: "get_wallet p5 base = Some (wb\<lparr>balance := Fin (b - c)\<rparr>)"
      "get_wallet p5 ?K = Some (wx\<lparr>balance := Fin x\<rparr>)"
    using g5 uK ne w4 by auto
  have dp2: "deposit (Fin c) (wb\<lparr>balance := Fin (b - c)\<rparr>) = Inr (wb\<lparr>balance := Fin b\<rparr>)"
    using c0 by (simp add: deposit_def r1)
  obtain p6 where p6: "on_wallet ''deposit'' base (deposit (Fin c)) p5 = Inr p6"
    and g6: "\<forall>k'. get_wallet p6 k' = (if upper k' = upper base then Some (wb\<lparr>balance := Fin b\<rparr>)
                                         else get_wallet p5 k')"
    using on_wallet_ok[where f = "deposit (Fin c)", OF w5(1) dp2] by blast
  have w6: "get_wallet p6 base = Some (wb\<lparr>balance := Fin b\<rparr>)"
      "get_wallet p6 ?K = Some (wx\<lparr>balance := Fin x\<rparr>)"
    using g6 uK ne w5 by auto
  let ?svc2 = "?svc1\<lparr>svc_portfolio := p6\<rparr>"
  let ?db2 = "save_portfolio ?svc2 ?db1"
  let ?res = "\<lparr>sr_currency = upper code, sr_amount = Fin a, sr_rate = Fin r,
                 sr_proceeds = Fin c, sr_base_currency = base,
                 sr_new_balance = Fin x, sr_base_balance = Fin b,
                 sr_rate_fresh = True\<rparr>"
  have sell: "sell_currency ev code amount base (?db1, ?svc1) = (Inr ?res, ?db2, ?svc2)"
    by (simp add: sell_currency_def prep2 co p5 p6 balance_of_Some[OF w6(1)]
        balance_of_Some[OF w6(2)] del: fmul.simps)
  have h2: "held_balance (svc_portfolio ?svc2) base = Fin b"
      "held_balance (svc_portfolio ?svc2) ?K = Fin x"
    using held_Some[OF w6(1)] held_Some[OF w6(2)] by simp_all
  have st: "to_dict (svc_portfolio ?svc2) \<in> set (load_portfolios ?db2)"
    by (rule save_portfolio_stores)
  have "sr_base_balance ?res = Fin b \<and> sr_new_balance ?res = Fin x" by simp
  with buy h1 sell h2 st show ?thesis by blast
qed

theorem buy_then_sell_round_trip_witness:
  "validate_amount example_env ''0.01'' = Inr (Fin (5764607523034235 / 576460752303423488))
   \<and> get_currency ''BTC'' = Inr \<lparr>cur_code = ''BTC'', cur_name = ''Bitcoin'', cur_kind = CryptoCurrency\<rparr>
   \<and> get_cached_rate example_env (trading_db (Fin 60000)) ''BTC'' ''USD''
       = Some (Fin 60000, Naive 0, True)
   \<and> upper ''USD'' \<noteq> ''BTC''
   \<and> held_balance (svc_portfolio alice_service) ''USD'' = Fin 1000
   \<and> held_balance (svc_portfolio alice_service) ''BTC'' = Fin 0
   \<and> fmul (Fin (5764607523034235 / 576460752303423488)) (Fin 60000) = Fin 600
   \<and> round64 (1000 - 600) = Fin (1000 - 600)
   \<and> round64 (0 + 5764607523034235 / 576460752303423488)
       = Fin (0 + 5764607523034235 / 576460752303423488)
   \<and> round64 1000 = Fin 1000 \<and> round64 0 = Fin 0
   \<and> held_balance (svc_portfolio (snd (snd (sell_currency example_env ''BTC'' ''0.01'' ''USD''
          (snd (buy_currency example_env ''BTC'' ''0.01'' ''USD''
             (trading_db (Fin 60000), alice_service))))))) ''USD'' = Fin 1000
   \<and> held_balance (svc_portfolio (snd (snd (sell_currency example_env ''BTC'' ''0.01'' ''USD''
          (snd (buy_currency example_env ''BTC'' ''0.01'' ''USD''
             (trading_db (Fin 60000), alice_service))))))) ''BTC'' = Fin 0"
proof -
  let ?a = "5764607523034235 / 576460752303423488 :: rat"
  let ?cur = "\<lparr>cur_code = ''BTC'', cur_name = ''Bitcoin'', cur_kind = CryptoCurrency\<rparr>"
  have ra: "get_cached_rate example_env (trading_db (Fin 60000)) (cur_code ?cur) ''USD''
              = Some (Fin 60000, Naive 0, True)"
    by (simp add: rate_fresh)
  have ne: "upper ''USD'' \<noteq> cur_code ?cur" by (simp add: upper_BTC)
  have hb: "held_balance (svc_portfolio alice_service) ''USD'' = Fin 1000"
    by (simp add: alice_service_def alice_wallets)
  have hx: "held_balance (svc_portfolio alice_service) (cur_code ?cur) = Fin 0"
    by (simp add: alice_service_def alice_wallets)
  have r0: "round64 0 = Fin 0" by (simp add: round64_def)
  have x0: "(0::rat) \<le> 0" and c0: "(0::rat) < 600" and cb: "(600::rat) \<le> 1000" by simp_all
  note t = buy_then_sell_round_trip [OF val_fresh(1) cur_BTC ra ne hb hx x0 mul_001_60000 c0 cb
      round64_scenario(1) round64_scenario(2) round64_scenario(3) r0]
  from t have "held_balance (svc_portfolio (snd (snd (sell_currency example_env ''BTC'' ''0.01'' ''USD''
          (snd (buy_currency example_env ''BTC'' ''0.01'' ''USD''
             (trading_db (Fin 60000), alice_service))))))) ''USD'' = Fin 1000
   \<and> held_balance (svc_portfolio (snd (snd (sell_currency example_env ''BTC'' ''0.01'' ''USD''
          (snd (buy_currency example_env ''BTC'' ''0.01'' ''USD''
             (trading_db (Fin 60000), alice_service))))))) ''BTC'' = Fin 0"
    by auto
  with val_fresh(1) cur_BTC rate_fresh ne hb hx mul_001_60000 round64_scenario r0
  show ?thesis by simp
qed

end
